theory Spec2Isabelle
  imports Complex_Main
begin

section \<open>Arrays, errors and the annotated dataset\<close>

text \<open>
  The estimator of \<^verbatim>\<open>scvelo/tools/velocity.py\<close> works on numpy arrays and on an
  AnnData object. Floating-point numbers are modelled as reals: the properties
  below are about which entries are read and written and which formula is used,
  not about rounding. A one-dimensional array is a list. A two-dimensional array
  of shape (cells, genes) is the list of its gene columns, each column listing
  the cells; a matrix without columns does not record its number of rows.
\<close>

type_synonym vec = "real list"
type_synonym matrix = "real list list"

datatype error = KeyError string | ValueError string | IndexError | TypeError

definition shape_error :: error where
  "shape_error = ValueError ''shape mismatch''"

definition ebind :: "error + 'a \<Rightarrow> ('a \<Rightarrow> error + 'b) \<Rightarrow> error + 'b" where
  "ebind m f = (case m of Inl e \<Rightarrow> Inl e | Inr x \<Rightarrow> f x)"

fun mapM :: "('a \<Rightarrow> error + 'b) \<Rightarrow> 'a list \<Rightarrow> error + 'b list" where
  "mapM f [] = Inr []"
| "mapM f (x # xs) =
     (case f x of Inl e \<Rightarrow> Inl e
      | Inr y \<Rightarrow> (case mapM f xs of Inl e \<Rightarrow> Inl e | Inr ys \<Rightarrow> Inr (y # ys)))"

text \<open>
  numpy broadcasting along one axis: equal lengths pair up, a length of one is
  repeated, anything else raises ValueError. \<open>broadcast_into\<close> is the in-place
  form (\<^verbatim>\<open>a -= b\<close>, \<^verbatim>\<open>a[...] = b\<close>), where the left operand keeps its shape.
\<close>

definition broadcast :: "('a \<Rightarrow> 'b \<Rightarrow> error + 'c) \<Rightarrow> 'a list \<Rightarrow> 'b list \<Rightarrow> error + 'c list" where
  "broadcast f xs ys =
     (if length xs = length ys then mapM (\<lambda>(x, y). f x y) (zip xs ys)
      else if length xs = 1 then mapM (f (hd xs)) ys
      else if length ys = 1 then mapM (\<lambda>x. f x (hd ys)) xs
      else Inl shape_error)"

definition broadcast_into :: "('a \<Rightarrow> 'b \<Rightarrow> error + 'a) \<Rightarrow> 'a list \<Rightarrow> 'b list \<Rightarrow> error + 'a list" where
  "broadcast_into f xs ys =
     (if length xs = length ys then mapM (\<lambda>(x, y). f x y) (zip xs ys)
      else if length ys = 1 then mapM (\<lambda>x. f x (hd ys)) xs
      else Inl shape_error)"

definition vec_op :: "(real \<Rightarrow> real \<Rightarrow> real) \<Rightarrow> vec \<Rightarrow> vec \<Rightarrow> error + vec" where
  "vec_op h = broadcast (\<lambda>x y. Inr (h x y))"

definition vec_op_into :: "(real \<Rightarrow> real \<Rightarrow> real) \<Rightarrow> vec \<Rightarrow> vec \<Rightarrow> error + vec" where
  "vec_op_into h = broadcast_into (\<lambda>x y. Inr (h x y))"

text \<open>Elementwise operations: matrix with matrix, and matrix with a per-gene vector.\<close>

definition mat_op :: "(real \<Rightarrow> real \<Rightarrow> real) \<Rightarrow> matrix \<Rightarrow> matrix \<Rightarrow> error + matrix" where
  "mat_op h = broadcast (vec_op h)"

definition mat_vec_op :: "(real \<Rightarrow> real \<Rightarrow> real) \<Rightarrow> matrix \<Rightarrow> vec \<Rightarrow> error + matrix" where
  "mat_vec_op h = broadcast (\<lambda>c x. Inr (map (\<lambda>y. h y x) c))"

definition vec_mat_op :: "(real \<Rightarrow> real \<Rightarrow> real) \<Rightarrow> vec \<Rightarrow> matrix \<Rightarrow> error + matrix" where
  "vec_mat_op h = broadcast (\<lambda>x c. Inr (map (h x) c))"

definition mat_vec_op_into :: "(real \<Rightarrow> real \<Rightarrow> real) \<Rightarrow> matrix \<Rightarrow> vec \<Rightarrow> error + matrix" where
  "mat_vec_op_into h = broadcast_into (\<lambda>c x. Inr (map (\<lambda>y. h y x) c))"

definition mat_op_into :: "(real \<Rightarrow> real \<Rightarrow> real) \<Rightarrow> matrix \<Rightarrow> matrix \<Rightarrow> error + matrix" where
  "mat_op_into h = broadcast_into (vec_op_into h)"

definition scale :: "real \<Rightarrow> matrix \<Rightarrow> matrix" where
  "scale k M = map (map (\<lambda>x. k * x)) M"

definition square :: "matrix \<Rightarrow> matrix" where
  "square M = map (map (\<lambda>x. x ^ 2)) M"

definition zeros_like :: "matrix \<Rightarrow> matrix" where
  "zeros_like M = map (\<lambda>c. replicate (length c) 0) M"

definition mean0 :: "matrix \<Rightarrow> vec" where
  "mean0 M = map (\<lambda>c. sum_list c / real (length c)) M"

definition std0 :: "matrix \<Rightarrow> vec" where
  "std0 M = map (\<lambda>c. sqrt (sum_list (map (\<lambda>x. (x - sum_list c / real (length c)) ^ 2) c)
                              / real (length c))) M"

text \<open>
  \<^verbatim>\<open>len(set(a)) > 1\<close>: the array holds more than one distinct value.
\<close>

definition n_distinct :: "'a list \<Rightarrow> nat" where
  "n_distinct xs = length (remdups xs)"

text \<open>
  Boolean-mask indexing. Reading \<^verbatim>\<open>a[idx]\<close> raises IndexError when the mask
  and the array differ in length. Writing \<^verbatim>\<open>a[idx] = v\<close> also raises ValueError
  unless \<^verbatim>\<open>v\<close> has one entry for each selected position, or a single entry.
\<close>

definition gather :: "bool list \<Rightarrow> 'a list \<Rightarrow> 'a list" where
  "gather idx xs = map snd (filter fst (zip idx xs))"

definition take_mask :: "bool list \<Rightarrow> 'a list \<Rightarrow> error + 'a list" where
  "take_mask idx xs = (if length idx = length xs then Inr (gather idx xs) else Inl IndexError)"

fun scatter :: "'a list \<Rightarrow> bool list \<Rightarrow> 'a list \<Rightarrow> 'a list" where
  "scatter (a # as) (b # bs) vs =
     (if b then (case vs of [] \<Rightarrow> a # scatter as bs [] | v # vs' \<Rightarrow> v # scatter as bs vs')
      else a # scatter as bs vs)"
| "scatter as bs vs = as"

definition count_true :: "bool list \<Rightarrow> nat" where
  "count_true idx = length (filter (\<lambda>b. b) idx)"

definition put_mask :: "'a list \<Rightarrow> bool list \<Rightarrow> 'a list \<Rightarrow> error + 'a list" where
  "put_mask a idx v =
     (if length idx \<noteq> length a then Inl IndexError
      else if length v = count_true idx then Inr (scatter a idx v)
      else if length v = 1 then Inr (scatter a idx (replicate (count_true idx) (hd v)))
      else Inl shape_error)"

text \<open>Row selection and row assignment of a matrix act on every gene column.\<close>

definition take_rows :: "bool list \<Rightarrow> matrix \<Rightarrow> error + matrix" where
  "take_rows rows M = mapM (take_mask rows) M"

definition put_rows :: "matrix \<Rightarrow> bool list \<Rightarrow> matrix \<Rightarrow> error + matrix" where
  "put_rows T rows R = broadcast_into (\<lambda>t r. put_mask t rows r) T R"

text \<open>
  Column assignment \<^verbatim>\<open>Z[:, idx] = V\<close>: the columns of \<^verbatim>\<open>V\<close> go to the selected
  columns of \<^verbatim>\<open>Z\<close>, each broadcast to the rows of the column it replaces.
\<close>

fun scatterM :: "('a \<Rightarrow> 'a \<Rightarrow> error + 'a) \<Rightarrow> 'a list \<Rightarrow> bool list \<Rightarrow> 'a list \<Rightarrow> error + 'a list" where
  "scatterM f (a # as) (b # bs) vs =
     (if b then
        (case vs of [] \<Rightarrow> Inl shape_error
         | v # vs' \<Rightarrow> ebind (f a v) (\<lambda>c. ebind (scatterM f as bs vs') (\<lambda>cs. Inr (c # cs))))
      else ebind (scatterM f as bs vs) (\<lambda>cs. Inr (a # cs)))"
| "scatterM f as bs vs = Inr as"

definition fit_rows :: "vec \<Rightarrow> vec \<Rightarrow> error + vec" where
  "fit_rows z v =
     (if length v = length z then Inr v
      else if length v = 1 then Inr (replicate (length z) (hd v))
      else Inl shape_error)"

definition put_cols :: "matrix \<Rightarrow> bool list \<Rightarrow> matrix \<Rightarrow> error + matrix" where
  "put_cols Z idx V =
     (if length idx \<noteq> length Z then Inl IndexError
      else if length V = count_true idx then scatterM fit_rows Z idx V
      else if length V = 1 then scatterM fit_rows Z idx (replicate (count_true idx) (hd V))
      else Inl shape_error)"

text \<open>
  The AnnData object, as far as the estimator and the driver use it: its shape,
  the named layers, the observation table (label columns) and the gene table.
\<close>

datatype column = Floats vec | Bools "bool list"

record anndata =
  n_obs :: nat
  n_vars :: nat
  layers :: "string \<rightharpoonup> matrix"
  obs :: "string \<rightharpoonup> string list"
  var :: "string \<rightharpoonup> column"

definition get_layer :: "anndata \<Rightarrow> string \<Rightarrow> error + matrix" where
  "get_layer a key = (case layers a key of None \<Rightarrow> Inl (KeyError key) | Some M \<Rightarrow> Inr M)"

fun gather_column :: "bool list \<Rightarrow> column \<Rightarrow> column" where
  "gather_column idx (Floats xs) = Floats (gather idx xs)"
| "gather_column idx (Bools bs) = Bools (gather idx bs)"

text \<open>
  \<^verbatim>\<open>adata[:, idx]\<close> and \<^verbatim>\<open>adata._inplace_subset_var(idx)\<close> keep the genes that the
  mask selects, in every layer and in the gene table; the first returns the
  narrowed dataset as a view, the second replaces the dataset by it.
  \<^verbatim>\<open>adata[groups]\<close> keeps the selected cells.
\<close>

definition subset_var :: "bool list \<Rightarrow> anndata \<Rightarrow> error + anndata" where
  "subset_var idx a =
     (if length idx \<noteq> n_vars a then Inl IndexError
      else Inr (a\<lparr>n_vars := count_true idx,
                  layers := (\<lambda>k. map_option (gather idx) (layers a k)),
                  var := (\<lambda>k. map_option (gather_column idx) (var a k))\<rparr>))"

definition subset_obs :: "bool list \<Rightarrow> anndata \<Rightarrow> error + anndata" where
  "subset_obs rows a =
     (if length rows \<noteq> n_obs a then Inl IndexError
      else Inr (a\<lparr>n_obs := count_true rows,
                  layers := (\<lambda>k. map_option (map (gather rows)) (layers a k)),
                  obs := (\<lambda>k. map_option (gather rows) (obs a k))\<rparr>))"


section \<open>Collaborators outside the estimator\<close>

text \<open>
  The solvers (\<^verbatim>\<open>solve_cov\<close>, \<^verbatim>\<open>solve2_inv\<close>, \<^verbatim>\<open>solve2_mle\<close>), the fit-quality
  metric \<^verbatim>\<open>R_squared\<close> and the moment computations are imported by
  \<^verbatim>\<open>velocity.py\<close> from other modules. They are parameters of the model: any
  functions of these types, each of which may raise.
\<close>

record collab =
  solve_cov :: "matrix \<Rightarrow> matrix \<Rightarrow> bool \<Rightarrow> error + (vec \<times> vec)"
  solve2_inv :: "matrix \<Rightarrow> matrix \<Rightarrow> matrix \<Rightarrow> matrix \<Rightarrow> vec \<Rightarrow> vec \<Rightarrow> bool \<Rightarrow> bool
                  \<Rightarrow> error + (vec \<times> vec \<times> vec)"
  solve2_mle :: "matrix \<Rightarrow> matrix \<Rightarrow> matrix \<Rightarrow> matrix \<Rightarrow> bool \<Rightarrow> bool
                  \<Rightarrow> error + (vec \<times> vec \<times> vec)"
  R_squared :: "matrix \<Rightarrow> matrix \<Rightarrow> error + vec"
  second_order_moments :: "anndata \<Rightarrow> error + (matrix \<times> matrix)"
  first_order_moments :: "anndata \<Rightarrow> matrix \<times> matrix"

text \<open>
  Modelled from the spec: \<^verbatim>\<open>moments\<close> of \<^verbatim>\<open>scvelo/preprocessing/moments.py\<close> is
  missing; the spec describes it as a side effect on the dataset that populates
  the two layers \<^verbatim>\<open>Ms\<close> and \<^verbatim>\<open>Mu\<close>. The matrices it computes are a parameter.
\<close>

definition moments :: "collab \<Rightarrow> anndata \<Rightarrow> anndata" where
  "moments C a =
     a\<lparr>layers := (layers a)(''Ms'' \<mapsto> fst (first_order_moments C a),
                             ''Mu'' \<mapsto> snd (first_order_moments C a))\<rparr>"

section \<open>The estimator: class Velocity\<close>

record Velocity =
  adata :: anndata
  Ms :: matrix
  Mu :: matrix
  residual :: "matrix option"
  residual2 :: "matrix option"
  offset :: vec
  offset2 :: vec
  gamma :: vec
  r2 :: vec
  beta :: vec
  velocity_genes :: "bool list"
  subset :: "bool list option"

text \<open>
  \<^verbatim>\<open>Velocity.__init__\<close>. The conditional expression of the source nests to the
  right: with \<^verbatim>\<open>use_raw\<close> the raw layer is taken, whatever \<^verbatim>\<open>Ms\<close> is. A sparse
  matrix and its dense form are the same value here.
\<close>

definition Velocity_init ::
  "anndata \<Rightarrow> matrix option \<Rightarrow> matrix option \<Rightarrow> bool list option \<Rightarrow> matrix option \<Rightarrow> bool
     \<Rightarrow> error + Velocity" where
  "Velocity_init a Ms_arg Mu_arg subset_arg residual_arg use_raw =
     ebind (if use_raw then get_layer a ''spliced''
            else (case Ms_arg of None \<Rightarrow> get_layer a ''Ms'' | Some M \<Rightarrow> Inr M)) (\<lambda>Ms1.
     ebind (if use_raw then get_layer a ''unspliced''
            else (case Mu_arg of None \<Rightarrow> get_layer a ''Mu'' | Some M \<Rightarrow> Inr M)) (\<lambda>Mu1.
     Inr \<lparr>adata = a, Ms = Ms1, Mu = Mu1,
          residual = residual_arg, residual2 = None,
          offset = replicate (length Ms1) 0, offset2 = replicate (length Ms1) 0,
          gamma = replicate (length Ms1) 0, r2 = replicate (length Ms1) 0,
          beta = replicate (length Ms1) 1, velocity_genes = replicate (length Ms1) True,
          subset = subset_arg\<rparr>))"

text \<open>
  The first-order residual \<^verbatim>\<open>Mu - gamma * Ms\<close>, less the offset when it is
  fitted (lines 29-30 and again 61-62 of the source).
\<close>

definition first_residual :: "bool \<Rightarrow> vec \<Rightarrow> vec \<Rightarrow> matrix \<Rightarrow> matrix \<Rightarrow> error + matrix" where
  "first_residual fit_offset off gam Ms1 Mu1 =
     ebind (vec_mat_op (*) gam Ms1) (\<lambda>gm.
     ebind (mat_op (-) Mu1 gm) (\<lambda>r.
     if fit_offset then mat_vec_op_into (-) r off else Inr r))"

definition compute_deterministic :: "collab \<Rightarrow> bool \<Rightarrow> Velocity \<Rightarrow> error + Velocity" where
  "compute_deterministic C fit_offset s =
     ebind (case subset s of
              None \<Rightarrow> solve_cov C (Ms s) (Mu s) fit_offset
            | Some rows \<Rightarrow>
                ebind (take_rows rows (Ms s)) (\<lambda>Ms1.
                ebind (take_rows rows (Mu s)) (\<lambda>Mu1.
                solve_cov C Ms1 Mu1 fit_offset))) (\<lambda>(off, gam).
     ebind (first_residual fit_offset off gam (Ms s) (Mu s)) (\<lambda>res.
     ebind (mat_vec_op (-) (Mu s) (mean0 (Mu s))) (\<lambda>total.
     ebind (R_squared C res total) (\<lambda>rsq.
     ebind (broadcast (\<lambda>p q. Inr (p \<and> q))
              (map (\<lambda>x. x > 1 / 100) rsq) (map (\<lambda>x. x > 1 / 100) gam)) (\<lambda>genes.
     Inr (s\<lparr>offset := off, gamma := gam, residual := Some res,
            r2 := rsq, velocity_genes := genes\<rparr>))))))"

text \<open>
  The second-order residual of lines 64-66, on the active genes: \<^verbatim>\<open>gi\<close>, \<^verbatim>\<open>oi\<close>
  and \<^verbatim>\<open>o2i\<close> are \<^verbatim>\<open>gamma[idx]\<close>, \<^verbatim>\<open>offset[idx]\<close> and \<^verbatim>\<open>offset2[idx]\<close>.
\<close>

definition second_residual ::
  "bool \<Rightarrow> bool \<Rightarrow> vec \<Rightarrow> vec \<Rightarrow> vec \<Rightarrow> matrix \<Rightarrow> matrix \<Rightarrow> matrix \<Rightarrow> matrix \<Rightarrow> error + matrix" where
  "second_residual fit_offset fit_offset2 oi o2i gi Ms1 Mu1 var_ss cov_us =
     ebind (mat_op (*) (scale 2 Ms1) Mu1) (\<lambda>mm.
     ebind (mat_op (-) cov_us mm) (\<lambda>lhs.
     ebind (mat_op (-) var_ss (scale 2 (square Ms1))) (\<lambda>vs.
     ebind (vec_mat_op (*) gi vs) (\<lambda>gv.
     ebind (mat_op (-) lhs gv) (\<lambda>ra.
     ebind (if fit_offset
            then ebind (vec_mat_op (*) (map (\<lambda>x. 2 * x) oi) Ms1) (\<lambda>om. mat_op_into (+) ra om)
            else Inr ra) (\<lambda>rb.
     if fit_offset2 then mat_vec_op_into (-) rb o2i else Inr rb))))))"

text \<open>Lines 37-71 of \<^verbatim>\<open>compute_stochastic\<close>: the stage after the deterministic fit.\<close>

definition stochastic_stage ::
  "collab \<Rightarrow> bool \<Rightarrow> bool \<Rightarrow> string option \<Rightarrow> Velocity \<Rightarrow> error + Velocity" where
  "stochastic_stage C fit_offset fit_offset2 mode s =
     (let idx = velocity_genes s; is_subset = (n_distinct idx > 1) in
      ebind (if is_subset then subset_var idx (adata s) else Inr (adata s)) (\<lambda>a1.
      ebind (if is_subset then take_mask idx (Ms s) else Inr (Ms s)) (\<lambda>Ms1.
      ebind (if is_subset then take_mask idx (Mu s) else Inr (Mu s)) (\<lambda>Mu1.
      ebind (case residual s of None \<Rightarrow> Inl TypeError
             | Some R \<Rightarrow> if is_subset then take_mask idx R else Inr R) (\<lambda>res1.
      ebind (second_order_moments C a1) (\<lambda>(Mss, Mus).
      ebind (mat_op (-) (scale 2 Mss) Ms1) (\<lambda>var_ss.
      ebind (mat_op (+) (scale 2 Mus) Mu1) (\<lambda>cov_us.
      ebind (solve_cov C var_ss cov_us fit_offset2) (\<lambda>(off2a, gam2).
      ebind (vec_mat_op (*) gam2 var_ss) (\<lambda>t1.
      ebind (mat_op (-) cov_us t1) (\<lambda>t2.
      ebind (mat_vec_op (-) t2 off2a) (\<lambda>t3.
      ebind (if mode = Some ''bayes''
             then solve2_mle C Ms1 Mu1 Mus Mss fit_offset fit_offset2
             else solve2_inv C Ms1 Mu1 var_ss cov_us (std0 res1) (std0 t3) fit_offset fit_offset2)
        (\<lambda>(sol_off, sol_off2, sol_gam).
      ebind (put_mask (offset s) idx sol_off) (\<lambda>off.
      ebind (put_mask (offset2 s) idx sol_off2) (\<lambda>off2.
      ebind (put_mask (gamma s) idx sol_gam) (\<lambda>gam.
      ebind (first_residual fit_offset off gam (Ms s) (Mu s)) (\<lambda>res.
      ebind (take_mask idx gam) (\<lambda>gi.
      ebind (if fit_offset then take_mask idx off else Inr []) (\<lambda>oi.
      ebind (if fit_offset2 then take_mask idx off2 else Inr []) (\<lambda>o2i.
      ebind (second_residual fit_offset fit_offset2 oi o2i gi Ms1 Mu1 var_ss cov_us) (\<lambda>r2a.
      ebind (if is_subset then put_cols (zeros_like (Ms s)) idx r2a else Inr r2a) (\<lambda>res2.
      Inr (s\<lparr>offset := off, offset2 := off2, gamma := gam,
             residual := Some res, residual2 := Some res2\<rparr>)))))))))))))))))))))))"

definition compute_stochastic ::
  "collab \<Rightarrow> bool \<Rightarrow> bool \<Rightarrow> string option \<Rightarrow> Velocity \<Rightarrow> error + Velocity" where
  "compute_stochastic C fit_offset fit_offset2 mode s =
     ebind (if residual s = None then compute_deterministic C fit_offset s else Inr s)
       (stochastic_stage C fit_offset fit_offset2 mode)"

definition get_residuals :: "Velocity \<Rightarrow> matrix option \<times> matrix option" where
  "get_residuals s = (residual s, residual2 s)"

definition get_pars :: "Velocity \<Rightarrow> column list" where
  "get_pars s = [Floats (offset s), Floats (offset2 s), Floats (beta s), Floats (gamma s),
                 Floats (r2 s), Bools (velocity_genes s)]"

definition get_pars_names :: "string list" where
  "get_pars_names = [''_offset'', ''_offset2'', ''_beta'', ''_gamma'', ''_r2'', ''_genes'']"


section \<open>The driver: velocity\<close>

datatype groups_arg = NoGroups | GroupName string | GroupList "string list"

text \<open>
  Lines 124-130: a single label becomes a one-element list; a list of labels is
  resolved against the observation table, or the call raises
  \<^verbatim>\<open>ValueError('groupby attribute not valid.')\<close>.
\<close>

definition resolve_groups :: "groups_arg \<Rightarrow> string option \<Rightarrow> anndata \<Rightarrow> error + bool list option" where
  "resolve_groups groups groupby a =
     (case (case groups of NoGroups \<Rightarrow> None | GroupName g \<Rightarrow> Some [g] | GroupList gs \<Rightarrow> Some gs) of
        None \<Rightarrow> Inr None
      | Some gs \<Rightarrow>
          (case (if (case groupby of None \<Rightarrow> False | Some k \<Rightarrow> obs a k \<noteq> None) then groupby
                 else if obs a ''clusters'' \<noteq> None then Some ''clusters''
                 else if obs a ''louvain'' \<noteq> None then Some ''louvain''
                 else None) of
             None \<Rightarrow> Inl (ValueError ''groupby attribute not valid.'')
           | Some k \<Rightarrow>
               (case obs a k of
                  None \<Rightarrow> Inl (KeyError k)
                | Some labels \<Rightarrow> Inr (Some (map (\<lambda>key. key \<in> set gs) labels)))))"

text \<open>
  Line 132: the estimator works on the dataset itself, or on the view
  \<^verbatim>\<open>adata[groups]\<close>, which shows the dataset's current content for the cells
  of the group.
\<close>

definition view_of :: "bool list option \<Rightarrow> anndata \<Rightarrow> error + anndata" where
  "view_of grp a = (case grp of None \<Rightarrow> Inr a | Some rows \<Rightarrow> subset_obs rows a)"

text \<open>Line 139: \<^verbatim>\<open>mode in item\<close> is Python's substring test.\<close>

fun starts_with :: "string \<Rightarrow> string \<Rightarrow> bool" where
  "starts_with [] ys = True"
| "starts_with (x # xs) [] = False"
| "starts_with (x # xs) (y # ys) = (x = y \<and> starts_with xs ys)"

fun substring :: "string \<Rightarrow> string \<Rightarrow> bool" where
  "substring m [] = (m = [])"
| "substring m (c # cs) = (starts_with m (c # cs) \<or> substring m cs)"

definition stochastic_mode :: "string option \<Rightarrow> bool" where
  "stochastic_mode mode =
     (case mode of None \<Rightarrow> False
      | Some m \<Rightarrow> list_ex (\<lambda>item. substring m item) [''stochastic'', ''bayes'', ''alpha''])"

text \<open>
  Line 122: the first-order moments are computed when they are missing and the
  raw counts are not asked for.
\<close>

definition ensure_moments :: "collab \<Rightarrow> bool \<Rightarrow> anndata \<Rightarrow> anndata" where
  "ensure_moments C use_raw a =
     (if \<not> use_raw \<and> layers a ''Ms'' = None then moments C a else a)"

text \<open>Lines 136-137: the estimator is built and the deterministic fit is run.\<close>

definition first_fit ::
  "collab \<Rightarrow> bool \<Rightarrow> bool list option \<Rightarrow> bool list option \<Rightarrow> bool \<Rightarrow> anndata
     \<Rightarrow> error + Velocity" where
  "first_fit C fit_offset grp subset_for_fitting use_raw a =
     ebind (view_of grp a) (\<lambda>v.
     ebind (Velocity_init v None None subset_for_fitting None use_raw)
       (compute_deterministic C fit_offset))"

text \<open>
  Line 145: the estimator is built again on the narrowed dataset, with the
  residual of the first estimator carried over for the velocity genes.
\<close>

definition rebuild ::
  "bool list option \<Rightarrow> bool list option \<Rightarrow> Velocity \<Rightarrow> anndata \<Rightarrow> error + Velocity" where
  "rebuild grp subset_for_fitting velo a =
     ebind (view_of grp a) (\<lambda>v.
     ebind (case residual velo of None \<Rightarrow> Inl TypeError
            | Some R \<Rightarrow> take_mask (velocity_genes velo) R) (\<lambda>R.
     Velocity_init v None None subset_for_fitting (Some R) False))"

text \<open>
  Lines 136-146, the fitting stages: after the first fit, in a stochastic mode,
  the dataset is narrowed to the velocity genes when \<^verbatim>\<open>filter_genes\<close> asks for
  it and the mask has both values, the estimator is rebuilt, and the stochastic
  fit is run. The result is the dataset as the stages leave it, and the
  estimator or the exception raised.
\<close>

definition fit_stages ::
  "collab \<Rightarrow> string option \<Rightarrow> bool \<Rightarrow> bool \<Rightarrow> bool \<Rightarrow> bool list option \<Rightarrow> bool list option \<Rightarrow> bool
     \<Rightarrow> anndata \<Rightarrow> anndata \<times> (error + Velocity)" where
  "fit_stages C mode fit_offset fit_offset2 filter_genes grp subset_for_fitting use_raw a =
     (case first_fit C fit_offset grp subset_for_fitting use_raw a of
        Inl e \<Rightarrow> (a, Inl e)
      | Inr velo \<Rightarrow>
          if stochastic_mode mode then
            if filter_genes \<and> n_distinct (velocity_genes velo) > 1 then
              (case subset_var (velocity_genes velo) a of
                 Inl e \<Rightarrow> (a, Inl e)
               | Inr a1 \<Rightarrow>
                   (a1, ebind (rebuild grp subset_for_fitting velo a1)
                          (compute_stochastic C fit_offset fit_offset2 mode)))
            else (a, compute_stochastic C fit_offset fit_offset2 mode velo)
          else (a, Inr velo))"

text \<open>
  Writes to the dataset. Each one takes the dataset and returns it as the write
  leaves it, with the exception if one is raised.
\<close>

type_synonym action = "anndata \<Rightarrow> anndata \<times> error option"

definition andthen :: "action \<Rightarrow> action \<Rightarrow> action" where
  "andthen p q a = (case p a of (a1, None) \<Rightarrow> q a1 | (a1, Some e) \<Rightarrow> (a1, Some e))"

definition skip :: action where
  "skip a = (a, None)"

definition set_layer :: "string \<Rightarrow> matrix \<Rightarrow> anndata \<Rightarrow> anndata" where
  "set_layer key M a = a\<lparr>layers := (layers a)(key \<mapsto> M)\<rparr>"

definition assign_layer :: "string \<Rightarrow> matrix option \<Rightarrow> action" where
  "assign_layer key val a =
     (case val of None \<Rightarrow> (a, Some TypeError) | Some M \<Rightarrow> (set_layer key M a, None))"

definition ensure_layer :: "string \<Rightarrow> action" where
  "ensure_layer key a =
     (if layers a key = None
      then (set_layer key (replicate (n_vars a) (replicate (n_obs a) 0)) a, None)
      else (a, None))"

definition assign_layer_rows :: "string \<Rightarrow> bool list \<Rightarrow> matrix option \<Rightarrow> action" where
  "assign_layer_rows key rows val a =
     (case val of
        None \<Rightarrow> (a, Some TypeError)
      | Some R \<Rightarrow>
          (case layers a key of
             None \<Rightarrow> (a, Some (KeyError key))
           | Some T \<Rightarrow>
               (case put_rows T rows R of
                  Inl e \<Rightarrow> (a, Some e)
                | Inr T1 \<Rightarrow> (set_layer key T1 a, None))))"

definition inplace_subset_var :: "bool list \<Rightarrow> action" where
  "inplace_subset_var idx a =
     (case subset_var idx a of Inl e \<Rightarrow> (a, Some e) | Inr a1 \<Rightarrow> (a1, None))"

fun column_distinct :: "column \<Rightarrow> nat" where
  "column_distinct (Floats xs) = n_distinct xs"
| "column_distinct (Bools bs) = n_distinct bs"

text \<open>Lines 160-162: the loop over the parameter vectors and their names.\<close>

fun write_pars :: "string \<Rightarrow> (string \<times> column) list \<Rightarrow> anndata \<Rightarrow> anndata" where
  "write_pars vkey [] a = a"
| "write_pars vkey ((key, p) # rest) a =
     write_pars vkey rest
       (if column_distinct p > 1 then a\<lparr>var := (var a)(vkey @ key \<mapsto> p)\<rparr> else a)"

text \<open>
  Lines 147-158: the residual layers are written, both in a stochastic mode and
  the first alone otherwise; with a group of cells, into the rows of the group
  of a layer that is created as zeros when it does not exist.
\<close>

definition write_layers :: "string \<Rightarrow> bool \<Rightarrow> bool list option \<Rightarrow> Velocity \<Rightarrow> action" where
  "write_layers vkey stoch grp velo =
     (if stoch then
        (case grp of
           None \<Rightarrow>
             andthen (assign_layer vkey (fst (get_residuals velo)))
               (assign_layer (''variance_'' @ vkey) (snd (get_residuals velo)))
         | Some rows \<Rightarrow>
             andthen (ensure_layer vkey)
            (andthen (ensure_layer (''variance_'' @ vkey))
            (andthen (assign_layer_rows vkey rows (fst (get_residuals velo)))
               (assign_layer_rows (''variance_'' @ vkey) rows (snd (get_residuals velo))))))
      else
        (case grp of
           None \<Rightarrow> assign_layer vkey (fst (get_residuals velo))
         | Some rows \<Rightarrow>
             andthen (ensure_layer vkey)
               (assign_layer_rows vkey rows (fst (get_residuals velo)))))"

text \<open>Lines 147-170: the layers and the parameters are written and the genes are filtered.\<close>

definition write_results ::
  "string \<Rightarrow> bool \<Rightarrow> bool \<Rightarrow> bool list option \<Rightarrow> Velocity \<Rightarrow> action" where
  "write_results vkey stoch filter_genes grp velo =
     andthen (write_layers vkey stoch grp velo)
    (andthen (\<lambda>a. (write_pars vkey (zip get_pars_names (get_pars velo)) a, None))
       (if filter_genes \<and> n_distinct (velocity_genes velo) > 1
        then inplace_subset_var (velocity_genes velo) else skip))"

text \<open>
  The body of \<^verbatim>\<open>velocity\<close> on the dataset \<^verbatim>\<open>adata\<close> it works on (lines 122-170):
  the dataset as the call leaves it, and the exception if one is raised.
\<close>

definition velocity_body ::
  "collab \<Rightarrow> string \<Rightarrow> string option \<Rightarrow> bool \<Rightarrow> bool \<Rightarrow> bool \<Rightarrow> groups_arg \<Rightarrow> string option
     \<Rightarrow> bool list option \<Rightarrow> bool \<Rightarrow> action" where
  "velocity_body C vkey mode fit_offset fit_offset2 filter_genes groups groupby
       subset_for_fitting use_raw a0 =
     (let a1 = ensure_moments C use_raw a0 in
      case resolve_groups groups groupby a1 of
        Inl e \<Rightarrow> (a1, Some e)
      | Inr grp \<Rightarrow>
          (case fit_stages C mode fit_offset fit_offset2 filter_genes grp
                  subset_for_fitting use_raw a1 of
             (a2, Inl e) \<Rightarrow> (a2, Some e)
           | (a2, Inr velo) \<Rightarrow>
               write_results vkey (stochastic_mode mode) filter_genes grp velo a2))"

text \<open>
  The call itself. Datasets are objects: the store lists them, and a reference
  is a position in the store. \<^verbatim>\<open>data.copy()\<close> allocates a new object with the
  same content. The result is the store after the call and what the call
  returns (a reference or \<^verbatim>\<open>None\<close>) or raises.
\<close>

definition velocity ::
  "collab \<Rightarrow> string \<Rightarrow> string option \<Rightarrow> bool \<Rightarrow> bool \<Rightarrow> bool \<Rightarrow> groups_arg \<Rightarrow> string option
     \<Rightarrow> bool list option \<Rightarrow> bool \<Rightarrow> bool \<Rightarrow> nat \<Rightarrow> anndata list
     \<Rightarrow> anndata list \<times> (error + nat option)" where
  "velocity C vkey mode fit_offset fit_offset2 filter_genes groups groupby
       subset_for_fitting use_raw copy data st =
     (let st1 = (if copy then st @ [st ! data] else st);
          r = (if copy then length st else data)
      in case velocity_body C vkey mode fit_offset fit_offset2 filter_genes groups groupby
                subset_for_fitting use_raw (st1 ! r) of
           (a1, Some e) \<Rightarrow> (st1[r := a1], Inl e)
         | (a1, None) \<Rightarrow> (st1[r := a1], Inr (if copy then Some r else None)))"


section \<open>The residual formula and shapes, for stating the claims\<close>

text \<open>
  The second-order residual as the specification words it, for one gene and one
  cell: \<open>(cov_us - 2 Ms Mu) - gamma (var_ss - 2 Ms\<^sup>2)\<close>, plus \<open>2 offset Ms\<close> when
  \<^verbatim>\<open>fit_offset\<close> is set, minus \<open>offset2\<close> when \<^verbatim>\<open>fit_offset2\<close> is set.
\<close>

definition residual2_formula ::
  "bool \<Rightarrow> bool \<Rightarrow> real \<Rightarrow> real \<Rightarrow> real \<Rightarrow> real \<Rightarrow> real \<Rightarrow> real \<Rightarrow> real \<Rightarrow> real" where
  "residual2_formula fit_offset fit_offset2 off off2 gam ms mu var_ss cov_us =
     (cov_us - 2 * ms * mu) - gam * (var_ss - 2 * ms ^ 2)
       + (if fit_offset then 2 * off * ms else 0) - (if fit_offset2 then off2 else 0)"

text \<open>A matrix has shape \<open>(n, k)\<close>: \<open>k\<close> gene columns of \<open>n\<close> cells each.\<close>

definition has_shape :: "nat \<Rightarrow> nat \<Rightarrow> matrix \<Rightarrow> bool" where
  "has_shape k n M = (length M = k \<and> list_all (\<lambda>c. length c = n) M)"

text \<open>A matrix of that shape whose entry for gene \<open>j\<close> and cell \<open>c\<close> is \<open>f j c\<close>.\<close>

definition entries :: "nat \<Rightarrow> nat \<Rightarrow> matrix \<Rightarrow> (nat \<Rightarrow> nat \<Rightarrow> real) \<Rightarrow> bool" where
  "entries k n M f = (has_shape k n M \<and> (\<forall>j<k. \<forall>c<n. M ! j ! c = f j c))"

text \<open>
  An action touches only the layers \<open>K\<close> when, whatever its outcome, it leaves
  the shape, both annotation tables and every other layer as they were.
\<close>

definition touches_only :: "string set \<Rightarrow> action \<Rightarrow> bool" where
  "touches_only K p =
     (\<forall>a a1 r. p a = (a1, r) \<longrightarrow>
        var a1 = var a \<and> n_vars a1 = n_vars a \<and> n_obs a1 = n_obs a \<and> obs a1 = obs a \<and>
        (\<forall>k. k \<notin> K \<longrightarrow> layers a1 k = layers a k))"

section \<open>A small dataset and collaborators to run the model on\<close>

text \<open>
  Two cells and three genes. The solvers return one value for each gene column
  they are given: the covariance solve takes the first cell of the target as
  slope, the fit quality is the last cell of the centred target. Genes 0 and 2
  get slopes 2 and 3 and fit qualities 1 and 3, gene 1 gets 0 for both, so genes
  0 and 2 are the velocity genes.
\<close>

definition ex_collab :: collab where
  "ex_collab =
     \<lparr>solve_cov = (\<lambda>X Y fit. Inr (map (\<lambda>c. 0) Y, map hd Y)),
      solve2_inv = (\<lambda>M1 M2 V W s1 s2 f1 f2.
         Inr (map (\<lambda>c. 5) M1, map last M1, map (\<lambda>c. last c + 5) M1)),
      solve2_mle = (\<lambda>M1 M2 V W f1 f2.
         Inr (map (\<lambda>c. 5) M1, map last M1, map (\<lambda>c. last c + 6) M1)),
      R_squared = (\<lambda>R T. Inr (map last T)),
      second_order_moments = (\<lambda>a.
         ebind (get_layer a ''Ms'') (\<lambda>M. ebind (get_layer a ''Mu'') (\<lambda>N. Inr (M, N)))),
      first_order_moments = (\<lambda>a. ([[1, 2], [1, 2], [1, 3]], [[2, 4], [0, 0], [3, 9]]))\<rparr>"

definition ex_data :: anndata where
  "ex_data =
     \<lparr>n_obs = 2, n_vars = 3,
      layers = [''Ms'' \<mapsto> [[1, 2], [1, 2], [1, 3]], ''Mu'' \<mapsto> [[2, 4], [0, 0], [3, 9]],
                ''spliced'' \<mapsto> [[3, 4], [5, 6], [1, 1]],
                ''unspliced'' \<mapsto> [[7, 8], [9, 10], [2, 2]]],
      obs = Map.empty, var = Map.empty\<rparr>"

definition ex_velo0 :: Velocity where
  "ex_velo0 =
     \<lparr>adata = ex_data, Ms = [[1, 2], [1, 2], [1, 3]], Mu = [[2, 4], [0, 0], [3, 9]],
      residual = None, residual2 = None,
      offset = [0, 0, 0], offset2 = [0, 0, 0], gamma = [0, 0, 0], r2 = [0, 0, 0],
      beta = [1, 1, 1], velocity_genes = [True, True, True], subset = None\<rparr>"

definition ex_velo1 :: Velocity where
  "ex_velo1 =
     ex_velo0\<lparr>gamma := [2, 0, 3], residual := Some [[0, 0], [0, 0], [0, 0]],
              r2 := [1, 0, 3], velocity_genes := [True, False, True]\<rparr>"

text \<open>
  The estimator after \<^verbatim>\<open>compute_stochastic\<close> with both offsets fitted: gene 1,
  which the mask excludes, keeps the values of the deterministic stage.
\<close>

definition ex_velo2 :: Velocity where
  "ex_velo2 =
     ex_velo1\<lparr>offset := [5, 0, 5], offset2 := [2, 0, 3], gamma := [7, 0, 8],
              residual := Some [[- 10, - 15], [0, 0], [- 10, - 20]],
              residual2 := Some [[17, 56], [0, 0], [18, 120]]\<rparr>"

text \<open>
  The same dataset as a call in mode \<^verbatim>\<open>stochastic\<close> without gene filtering
  leaves it: with both residual layers and the parameter columns.
\<close>

definition ex_prev :: anndata where
  "ex_prev =
     \<lparr>n_obs = 2, n_vars = 3,
      layers = [''Ms'' \<mapsto> [[1, 2], [1, 2], [1, 3]], ''Mu'' \<mapsto> [[2, 4], [0, 0], [3, 9]],
                ''spliced'' \<mapsto> [[3, 4], [5, 6], [1, 1]],
                ''unspliced'' \<mapsto> [[7, 8], [9, 10], [2, 2]],
                ''velocity'' \<mapsto> [[- 5, - 10], [0, 0], [- 5, - 15]],
                ''variance_velocity'' \<mapsto> [[9, 38], [0, 0], [11, 93]]],
      obs = Map.empty,
      var = [''velocity_offset'' \<mapsto> Floats [5, 0, 5], ''velocity_offset2'' \<mapsto> Floats [2, 0, 3],
             ''velocity_gamma'' \<mapsto> Floats [7, 0, 8], ''velocity_r2'' \<mapsto> Floats [1, 0, 3],
             ''velocity_genes'' \<mapsto> Bools [True, False, True]]\<rparr>"

text \<open>A dataset with the raw counts only, as it is before any moments are computed.\<close>

definition ex_raw :: anndata where
  "ex_raw =
     \<lparr>n_obs = 2, n_vars = 3,
      layers = [''spliced'' \<mapsto> [[3, 4], [5, 6], [1, 1]],
                ''unspliced'' \<mapsto> [[7, 8], [9, 10], [2, 2]]],
      obs = Map.empty, var = Map.empty\<rparr>"

section \<open>Basic facts about the array operations\<close>

lemma ebind_Inr [simp]: "ebind (Inr x) f = f x"
  by (simp add: ebind_def)

lemma ebind_Inl [simp]: "ebind (Inl e) f = Inl e"
  by (simp add: ebind_def)

lemma ebind_eq_Inr: "ebind m f = Inr y \<longleftrightarrow> (\<exists>x. m = Inr x \<and> f x = Inr y)"
  by (cases m) simp_all

lemma mapM_pure: "mapM (\<lambda>x. Inr (g x)) xs = Inr (map g xs)"
  by (induction xs) simp_all

lemma mapM_pure2: "mapM (\<lambda>(x, y). Inr (h x y)) ps = Inr (map (\<lambda>(x, y). h x y) ps)"
  by (induction ps) (simp_all add: split_def)

lemma broadcast_pure_same:
  "length xs = length ys \<Longrightarrow>
     broadcast (\<lambda>x y. Inr (h x y)) xs ys = Inr (map (\<lambda>(x, y). h x y) (zip xs ys))"
  by (simp add: broadcast_def mapM_pure2)

lemmas np_defs = ebind_def get_layer_def first_residual_def second_residual_def
  vec_mat_op_def mat_op_def vec_op_def mat_vec_op_def mat_vec_op_into_def mat_op_into_def
  vec_op_into_def broadcast_def broadcast_into_def mean0_def std0_def scale_def square_def
  zeros_like_def n_distinct_def gather_def take_mask_def put_mask_def count_true_def
  take_rows_def put_rows_def put_cols_def fit_rows_def subset_var_def subset_obs_def
  shape_error_def

lemmas ex_defs = ex_collab_def ex_data_def ex_velo0_def ex_velo1_def ex_prev_def ex_raw_def

section \<open>What the stages and the writes leave unchanged\<close>

lemma remdups_replicate: "remdups (replicate n x) = (if n = 0 then [] else [x])"
  by (induction n) auto

lemma n_distinct_replicate: "n_distinct (replicate n x) \<le> 1"
  by (simp add: n_distinct_def remdups_replicate)

lemma Velocity_init_fields:
  assumes "Velocity_init a M U sub res raw = Inr s"
  shows "beta s = replicate (length (Ms s)) 1" "r2 s = replicate (length (Ms s)) 0"
    "velocity_genes s = replicate (length (Ms s)) True" "residual s = res"
    "offset s = replicate (length (Ms s)) 0" "offset2 s = replicate (length (Ms s)) 0"
    "gamma s = replicate (length (Ms s)) 0" "adata s = a" "residual2 s = None"
  using assms by (auto simp: Velocity_init_def ebind_eq_Inr split: if_splits)

lemma compute_deterministic_frame:
  assumes "compute_deterministic C fo s = Inr s'"
  shows "beta s' = beta s" "Ms s' = Ms s" "Mu s' = Mu s" "residual s' \<noteq> None"
    "residual2 s' = residual2 s" "offset2 s' = offset2 s" "adata s' = adata s" "subset s' = subset s"
  using assms by (auto simp: compute_deterministic_def ebind_eq_Inr)

lemma stochastic_stage_frame:
  assumes "stochastic_stage C fo fo2 mode s = Inr s'"
  shows "beta s' = beta s" "Ms s' = Ms s" "Mu s' = Mu s" "residual s' \<noteq> None"
    "residual2 s' \<noteq> None" "r2 s' = r2 s" "velocity_genes s' = velocity_genes s"
    "adata s' = adata s" "subset s' = subset s"
  using assms by (auto simp: stochastic_stage_def ebind_eq_Inr Let_def)

lemma compute_stochastic_frame:
  assumes "compute_stochastic C fo fo2 mode s = Inr s'"
  shows "beta s' = beta s" "Ms s' = Ms s" "Mu s' = Mu s" "residual s' \<noteq> None" "residual2 s' \<noteq> None"
proof -
  from assms obtain s1 where
    s1: "s1 = s \<or> compute_deterministic C fo s = Inr s1" and
    st: "stochastic_stage C fo fo2 mode s1 = Inr s'"
    by (auto simp: compute_stochastic_def ebind_eq_Inr split: if_splits)
  from s1 have "beta s1 = beta s \<and> Ms s1 = Ms s \<and> Mu s1 = Mu s"
    by (auto dest: compute_deterministic_frame)
  with stochastic_stage_frame [OF st]
  show "beta s' = beta s" "Ms s' = Ms s" "Mu s' = Mu s" "residual s' \<noteq> None" "residual2 s' \<noteq> None"
    by simp_all
qed

lemma compute_stochastic_carried:
  assumes "residual s \<noteq> None"
  shows "compute_stochastic C fo fo2 mode s = stochastic_stage C fo fo2 mode s"
  using assms by (auto simp: compute_stochastic_def)


lemma write_pars_fields:
  "var (write_pars vkey ps a) =
     fold (\<lambda>(key, p) m. if column_distinct p > 1 then m(vkey @ key \<mapsto> p) else m) ps (var a) \<and>
   n_vars (write_pars vkey ps a) = n_vars a \<and> n_obs (write_pars vkey ps a) = n_obs a \<and>
   layers (write_pars vkey ps a) = layers a \<and> obs (write_pars vkey ps a) = obs a"
proof (induction ps arbitrary: a)
  case Nil
  show ?case by simp
next
  case (Cons kp ps)
  obtain key p where kp: "kp = (key, p)" by (cases kp)
  show ?case
    unfolding kp by (simp add: Cons.IH fun_upd_def)
qed

lemma write_pars_var_cong:
  "var a = var b \<Longrightarrow> var (write_pars vkey ps a) = var (write_pars vkey ps b)"
  by (simp add: write_pars_fields)


lemma write_pars_var:
  assumes "i < 6"
  shows "var (write_pars vkey (zip get_pars_names (get_pars velo)) a) (vkey @ get_pars_names ! i) =
     (if column_distinct (get_pars velo ! i) > 1 then Some (get_pars velo ! i)
      else var a (vkey @ get_pars_names ! i))"
proof -
  from assms have "i = 0 \<or> i = 1 \<or> i = 2 \<or> i = 3 \<or> i = 4 \<or> i = 5" by arith
  then show ?thesis
    by (elim disjE) (simp_all add: get_pars_names_def get_pars_def)
qed


lemma touches_only_andthen:
  assumes "touches_only K p" "touches_only K q"
  shows "touches_only K (andthen p q)"
  unfolding touches_only_def
proof (intro allI impI)
  fix a a1 r
  assume run: "andthen p q a = (a1, r)"
  obtain b rb where pb: "p a = (b, rb)" by (cases "p a")
  from assms(1) pb have fb: "var b = var a \<and> n_vars b = n_vars a \<and> n_obs b = n_obs a \<and>
      obs b = obs a \<and> (\<forall>k. k \<notin> K \<longrightarrow> layers b k = layers a k)"
    unfolding touches_only_def by blast
  show "var a1 = var a \<and> n_vars a1 = n_vars a \<and> n_obs a1 = n_obs a \<and> obs a1 = obs a \<and>
        (\<forall>k. k \<notin> K \<longrightarrow> layers a1 k = layers a k)"
  proof (cases rb)
    case None
    with run pb have "q b = (a1, r)" by (simp add: andthen_def)
    with assms(2) have "var a1 = var b \<and> n_vars a1 = n_vars b \<and> n_obs a1 = n_obs b \<and>
      obs a1 = obs b \<and> (\<forall>k. k \<notin> K \<longrightarrow> layers a1 k = layers b k)"
      unfolding touches_only_def by blast
    with fb show ?thesis by simp
  next
    case (Some e)
    with run pb have "a1 = b" by (simp add: andthen_def)
    with fb show ?thesis by simp
  qed
qed

lemma touches_only_assign_layer: "key \<in> K \<Longrightarrow> touches_only K (assign_layer key val)"
  by (auto simp: touches_only_def assign_layer_def set_layer_def split: option.splits)

lemma touches_only_ensure_layer: "key \<in> K \<Longrightarrow> touches_only K (ensure_layer key)"
  by (auto simp: touches_only_def ensure_layer_def set_layer_def split: if_splits)

lemma touches_only_assign_layer_rows:
  "key \<in> K \<Longrightarrow> touches_only K (assign_layer_rows key rows val)"
  by (auto simp: touches_only_def assign_layer_rows_def set_layer_def
      split: option.splits sum.splits)

lemma touches_only_write_layers:
  "touches_only (if stoch then {vkey, ''variance_'' @ vkey} else {vkey})
     (write_layers vkey stoch grp velo)"
  by (cases grp)
    (simp_all add: write_layers_def touches_only_andthen touches_only_assign_layer
      touches_only_ensure_layer touches_only_assign_layer_rows)

lemma first_fit_fields:
  assumes "first_fit C fo grp sub raw a = Inr velo"
  shows "beta velo = replicate (length (Ms velo)) 1" "residual velo \<noteq> None" "residual2 velo = None"
proof -
  from assms obtain v s where "Velocity_init v None None sub None raw = Inr s"
    and det: "compute_deterministic C fo s = Inr velo"
    by (auto simp: first_fit_def ebind_eq_Inr)
  from Velocity_init_fields [OF this(1)] compute_deterministic_frame [OF det]
  show "beta velo = replicate (length (Ms velo)) 1" "residual velo \<noteq> None" "residual2 velo = None"
    by simp_all
qed

lemma rebuild_fields:
  assumes "rebuild grp sub velo0 a = Inr s"
  shows "beta s = replicate (length (Ms s)) 1" "r2 s = replicate (length (Ms s)) 0"
    "velocity_genes s = replicate (length (Ms s)) True" "residual s \<noteq> None"
proof -
  from assms obtain v R where "Velocity_init v None None sub (Some R) False = Inr s"
    by (auto simp: rebuild_def ebind_eq_Inr)
  from Velocity_init_fields [OF this]
  show "beta s = replicate (length (Ms s)) 1" "r2 s = replicate (length (Ms s)) 0"
    "velocity_genes s = replicate (length (Ms s)) True" "residual s \<noteq> None"
    by simp_all
qed

lemma fit_stages_cases:
  assumes "fit_stages C mode fo fo2 fg grp sub raw a = (a2, Inr velo)"
  obtains (deterministic) "\<not> stochastic_mode mode" "a2 = a" "first_fit C fo grp sub raw a = Inr velo"
  | (stochastic) velo0 where "stochastic_mode mode" "a2 = a" "first_fit C fo grp sub raw a = Inr velo0"
      "\<not> (fg \<and> n_distinct (velocity_genes velo0) > 1)"
      "compute_stochastic C fo fo2 mode velo0 = Inr velo"
  | (filtered) velo0 s where "stochastic_mode mode" "fg" "first_fit C fo grp sub raw a = Inr velo0"
      "n_distinct (velocity_genes velo0) > 1" "subset_var (velocity_genes velo0) a = Inr a2"
      "rebuild grp sub velo0 a2 = Inr s" "compute_stochastic C fo fo2 mode s = Inr velo"
  using assms
  by (auto simp: fit_stages_def ebind_eq_Inr split: sum.splits if_splits)

lemma fit_stages_beta:
  assumes "fit_stages C mode fo fo2 fg grp sub raw a = (a2, Inr velo)"
  shows "beta velo = replicate (length (Ms velo)) 1"
  using assms
proof (cases rule: fit_stages_cases)
  case deterministic
  then show ?thesis by (simp add: first_fit_fields)
next
  case (stochastic velo0)
  from compute_stochastic_frame [OF stochastic(5)] first_fit_fields(1) [OF stochastic(3)]
  show ?thesis by simp
next
  case (filtered velo0 s)
  from compute_stochastic_frame [OF filtered(7)] rebuild_fields(1) [OF filtered(6)]
  show ?thesis by simp
qed

lemma write_results_success:
  assumes "write_results vkey stoch fg grp velo a = (a', None)"
  obtains a1 where "write_layers vkey stoch grp velo a = (a1, None)"
    "if fg \<and> n_distinct (velocity_genes velo) > 1
     then subset_var (velocity_genes velo) (write_pars vkey (zip get_pars_names (get_pars velo)) a1) = Inr a'
     else a' = write_pars vkey (zip get_pars_names (get_pars velo)) a1"
  using assms
  by (auto simp: write_results_def andthen_def inplace_subset_var_def skip_def
      split: prod.splits option.splits sum.splits if_splits)

lemma subset_var_fields:
  assumes "subset_var idx a = Inr a'"
  shows "var a' k = map_option (gather_column idx) (var a k)"
    "layers a' k = map_option (gather idx) (layers a k)"
    "n_vars a' = count_true idx" "n_obs a' = n_obs a" "obs a' = obs a" "length idx = n_vars a"
  using assms by (auto simp: subset_var_def split: if_splits)

lemma body_success:
  assumes "velocity_body C vkey mode fo fo2 fg groups groupby sub raw a0 = (a', r)"
    and "resolve_groups groups groupby (ensure_moments C raw a0) = Inr grp"
    and "fit_stages C mode fo fo2 fg grp sub raw (ensure_moments C raw a0) = (a2, Inr velo)"
  shows "write_results vkey (stochastic_mode mode) fg grp velo a2 = (a', r)"
  using assms by (simp add: velocity_body_def Let_def)

lemma write_results_var:
  assumes "write_results vkey stoch fg grp velo a = (a', None)"
  shows "var a' k =
     (if fg \<and> n_distinct (velocity_genes velo) > 1
      then map_option (gather_column (velocity_genes velo)) else id)
       (var (write_pars vkey (zip get_pars_names (get_pars velo)) a) k)"
  using assms
proof (cases rule: write_results_success)
  case (1 a1)
  from touches_only_write_layers [of stoch vkey grp velo] 1(1)
  have "var a1 = var a" unfolding touches_only_def by blast
  then have eq: "var (write_pars vkey (zip get_pars_names (get_pars velo)) a1)
      = var (write_pars vkey (zip get_pars_names (get_pars velo)) a)"
    by (rule write_pars_var_cong)
  show ?thesis
  proof (cases "fg \<and> n_distinct (velocity_genes velo) > 1")
    case True
    with 1(2) have "subset_var (velocity_genes velo)
        (write_pars vkey (zip get_pars_names (get_pars velo)) a1) = Inr a'" by simp
    from subset_var_fields(1) [OF this] eq True show ?thesis by simp
  next
    case False
    with 1(2) eq show ?thesis by auto
  qed
qed

lemma write_results_layers:
  assumes "write_results vkey stoch fg grp velo a = (a', None)"
    and "k \<notin> (if stoch then {vkey, ''variance_'' @ vkey} else {vkey})"
  shows "layers a' k =
     (if fg \<and> n_distinct (velocity_genes velo) > 1
      then map_option (gather (velocity_genes velo)) else id) (layers a k)"
  using assms(1)
proof (cases rule: write_results_success)
  case (1 a1)
  from touches_only_write_layers [of stoch vkey grp velo] 1(1) assms(2)
  have l: "layers a1 k = layers a k" unfolding touches_only_def by blast
  show ?thesis
  proof (cases "fg \<and> n_distinct (velocity_genes velo) > 1")
    case True
    with 1(2) have "subset_var (velocity_genes velo)
        (write_pars vkey (zip get_pars_names (get_pars velo)) a1) = Inr a'" by simp
    from subset_var_fields(2) [OF this] l True show ?thesis by (simp add: write_pars_fields)
  next
    case False
    with 1(2) l show ?thesis by (auto simp: write_pars_fields)
  qed
qed

lemma ensure_moments_fields:
  "var (ensure_moments C raw a) = var a" "obs (ensure_moments C raw a) = obs a"
  "n_vars (ensure_moments C raw a) = n_vars a" "n_obs (ensure_moments C raw a) = n_obs a"
  "layers (ensure_moments C raw a) (''variance_'' @ vkey) = layers a (''variance_'' @ vkey)"
  by (simp_all add: ensure_moments_def moments_def)

lemma write_results_n_vars:
  assumes "write_results vkey stoch fg grp velo a = (a', None)"
    and "\<not> (fg \<and> n_distinct (velocity_genes velo) > 1)"
  shows "n_vars a' = n_vars a"
  using assms(1)
proof (cases rule: write_results_success)
  case (1 a1)
  from touches_only_write_layers [of stoch vkey grp velo] 1(1)
  have "n_vars a1 = n_vars a" unfolding touches_only_def by blast
  with 1(2) assms(2) show ?thesis by (auto simp: write_pars_fields)
qed

lemma write_results_first_layer:
  assumes "write_results vkey False fg None velo a = (a', None)"
  shows "layers a' vkey =
     (if fg \<and> n_distinct (velocity_genes velo) > 1
      then map_option (gather (velocity_genes velo)) else id) (residual velo)"
  using assms
proof (cases rule: write_results_success)
  case (1 a1)
  from 1(1) have l: "layers a1 vkey = residual velo"
    by (auto simp: write_layers_def assign_layer_def set_layer_def get_residuals_def
        split: option.splits)
  show ?thesis
  proof (cases "fg \<and> n_distinct (velocity_genes velo) > 1")
    case True
    with 1(2) have "subset_var (velocity_genes velo)
        (write_pars vkey (zip get_pars_names (get_pars velo)) a1) = Inr a'" by simp
    from subset_var_fields(2) [OF this] l True show ?thesis by (simp add: write_pars_fields)
  next
    case False
    with 1(2) l show ?thesis by (auto simp: write_pars_fields)
  qed
qed

lemma velocity_in_place:
  assumes "data < length st"
  shows "fst (velocity C vkey mode fit_offset fit_offset2 filter_genes groups groupby
            subset_for_fitting use_raw False data st) ! data
           = fst (velocity_body C vkey mode fit_offset fit_offset2 filter_genes groups groupby
                subset_for_fitting use_raw (st ! data))"
    and "snd (velocity C vkey mode fit_offset fit_offset2 filter_genes groups groupby
            subset_for_fitting use_raw False data st)
           = (case snd (velocity_body C vkey mode fit_offset fit_offset2 filter_genes groups groupby
                subset_for_fitting use_raw (st ! data)) of
                None \<Rightarrow> Inr None | Some e \<Rightarrow> Inl e)"
  using assms by (auto simp: velocity_def Let_def split: prod.splits option.splits)

section \<open>Entries of the array operations on matrices of one shape\<close>

lemma has_shape_nth: "has_shape k n M \<Longrightarrow> j < k \<Longrightarrow> length (M ! j) = n"
  by (simp add: has_shape_def list_all_length)

lemma entries_self: "has_shape k n M \<Longrightarrow> entries k n M (\<lambda>j c. M ! j ! c)"
  by (simp add: entries_def)

lemma entries_shape: "entries k n M f \<Longrightarrow> has_shape k n M"
  by (simp add: entries_def)

lemma mapM_pure_on: "(\<And>x. x \<in> set xs \<Longrightarrow> f x = Inr (g x)) \<Longrightarrow> mapM f xs = Inr (map g xs)"
  by (induction xs) simp_all

lemma entries_map2:
  assumes A: "has_shape k n A" and B: "length B = k"
    and row: "\<And>j. j < k \<Longrightarrow> length (g (A ! j) (B ! j)) = n \<and>
                  (\<forall>c<n. g (A ! j) (B ! j) ! c = f j c)"
  shows "entries k n (map (\<lambda>(x, y). g x y) (zip A B)) f"
  using assms by (auto simp: entries_def has_shape_def list_all_length)

lemma mat_op_entries:
  assumes A: "entries k n A fa" and B: "entries k n B fb"
  shows "\<exists>R. mat_op h A B = Inr R \<and> entries k n R (\<lambda>j c. h (fa j c) (fb j c))"
proof -
  from A B have sa: "has_shape k n A" and sb: "has_shape k n B" by (simp_all add: entries_def)
  then have len: "length A = length B" by (simp add: has_shape_def)
  have each: "(case p of (x, y) \<Rightarrow> vec_op h x y) = Inr ((\<lambda>(x, y). map (\<lambda>(u, v). h u v) (zip x y)) p)"
    if "p \<in> set (zip A B)" for p
  proof -
    obtain x y where p: "p = (x, y)" by (cases p)
    with that have "x \<in> set A" "y \<in> set B" by (auto dest: set_zip_leftD set_zip_rightD)
    with sa sb have "length x = length y" by (auto simp: has_shape_def list_all_iff)
    then show ?thesis by (simp add: p vec_op_def broadcast_pure_same)
  qed
  have run: "mat_op h A B = Inr (map (\<lambda>(x, y). map (\<lambda>(u, v). h u v) (zip x y)) (zip A B))"
    using len mapM_pure_on [of "zip A B" "\<lambda>p. case p of (x, y) \<Rightarrow> vec_op h x y", OF each]
    by (simp add: mat_op_def broadcast_def)
  have "entries k n (map (\<lambda>(x, y). map (\<lambda>(u, v). h u v) (zip x y)) (zip A B))
      (\<lambda>j c. h (fa j c) (fb j c))"
  proof (rule entries_map2 [OF sa])
    show "length B = k" using sb by (simp add: has_shape_def)
  next
    fix j assume j: "j < k"
    with sa sb have "length (A ! j) = n" "length (B ! j) = n" by (simp_all add: has_shape_nth)
    with j A B show "length (map (\<lambda>(u, v). h u v) (zip (A ! j) (B ! j))) = n \<and>
        (\<forall>c<n. map (\<lambda>(u, v). h u v) (zip (A ! j) (B ! j)) ! c = h (fa j c) (fb j c))"
      by (simp add: entries_def)
  qed
  with run show ?thesis by blast
qed


lemma mat_op_into_entries:
  assumes A: "entries k n A fa" and B: "entries k n B fb"
  shows "\<exists>R. mat_op_into h A B = Inr R \<and> entries k n R (\<lambda>j c. h (fa j c) (fb j c))"
proof -
  from A B have sa: "has_shape k n A" and sb: "has_shape k n B" by (simp_all add: entries_def)
  then have len: "length A = length B" by (simp add: has_shape_def)
  have each: "(case p of (x, y) \<Rightarrow> vec_op_into h x y)
      = Inr ((\<lambda>(x, y). map (\<lambda>(u, v). h u v) (zip x y)) p)"
    if "p \<in> set (zip A B)" for p
  proof -
    obtain x y where p: "p = (x, y)" by (cases p)
    with that have "x \<in> set A" "y \<in> set B" by (auto dest: set_zip_leftD set_zip_rightD)
    with sa sb have "length x = length y" by (auto simp: has_shape_def list_all_iff)
    then show ?thesis by (simp add: p vec_op_into_def broadcast_into_def mapM_pure2)
  qed
  have run: "mat_op_into h A B = Inr (map (\<lambda>(x, y). map (\<lambda>(u, v). h u v) (zip x y)) (zip A B))"
    using len mapM_pure_on [of "zip A B" "\<lambda>p. case p of (x, y) \<Rightarrow> vec_op_into h x y", OF each]
    by (simp add: mat_op_into_def broadcast_into_def)
  have "entries k n (map (\<lambda>(x, y). map (\<lambda>(u, v). h u v) (zip x y)) (zip A B))
      (\<lambda>j c. h (fa j c) (fb j c))"
  proof (rule entries_map2 [OF sa])
    show "length B = k" using sb by (simp add: has_shape_def)
  next
    fix j assume j: "j < k"
    with sa sb have "length (A ! j) = n" "length (B ! j) = n" by (simp_all add: has_shape_nth)
    with j A B show "length (map (\<lambda>(u, v). h u v) (zip (A ! j) (B ! j))) = n \<and>
        (\<forall>c<n. map (\<lambda>(u, v). h u v) (zip (A ! j) (B ! j)) ! c = h (fa j c) (fb j c))"
      by (simp add: entries_def)
  qed
  with run show ?thesis by blast
qed

lemma vec_mat_op_entries:
  assumes v: "length v = k" and M: "entries k n M fm"
  shows "\<exists>R. vec_mat_op h v M = Inr R \<and> entries k n R (\<lambda>j c. h (v ! j) (fm j c))"
proof -
  from M have sm: "has_shape k n M" by (simp add: entries_def)
  with v have len: "length v = length M" by (simp add: has_shape_def)
  then have run: "vec_mat_op h v M = Inr (map (\<lambda>(x, c). map (h x) c) (zip v M))"
    by (simp add: vec_mat_op_def broadcast_pure_same)
  have "entries k n (map (\<lambda>(x, c). map (h x) c) (zip v M)) (\<lambda>j c. h (v ! j) (fm j c))"
    using v M sm by (auto simp: entries_def has_shape_def list_all_length)
  with run show ?thesis by blast
qed

lemma mat_vec_op_into_entries:
  assumes M: "entries k n M fm" and v: "length v = k"
  shows "\<exists>R. mat_vec_op_into h M v = Inr R \<and> entries k n R (\<lambda>j c. h (fm j c) (v ! j))"
proof -
  from M have sm: "has_shape k n M" by (simp add: entries_def)
  with v have len: "length M = length v" by (simp add: has_shape_def)
  then have run: "mat_vec_op_into h M v = Inr (map (\<lambda>(c, x). map (\<lambda>y. h y x) c) (zip M v))"
    by (simp add: mat_vec_op_into_def broadcast_into_def mapM_pure2)
  have "entries k n (map (\<lambda>(c, x). map (\<lambda>y. h y x) c) (zip M v)) (\<lambda>j c. h (fm j c) (v ! j))"
    using v M sm by (auto simp: entries_def has_shape_def list_all_length)
  with run show ?thesis by blast
qed

lemma scale_entries: "entries k n M f \<Longrightarrow> entries k n (scale a M) (\<lambda>j c. a * f j c)"
  by (auto simp: entries_def has_shape_def scale_def list_all_length)

lemma square_entries: "entries k n M f \<Longrightarrow> entries k n (square M) (\<lambda>j c. f j c ^ 2)"
  by (auto simp: entries_def has_shape_def square_def list_all_length)

lemma entries_cong:
  "entries k n M f \<Longrightarrow> (\<And>j c. j < k \<Longrightarrow> c < n \<Longrightarrow> f j c = g j c) \<Longrightarrow> entries k n M g"
  by (simp add: entries_def)

lemma second_residual_entries:
  assumes Ms1: "has_shape k n Ms1" and Mu1: "has_shape k n Mu1"
    and vs: "has_shape k n var_ss" and cu: "has_shape k n cov_us"
    and gi: "length gi = k" and oi: "fit_offset \<Longrightarrow> length oi = k"
    and o2i: "fit_offset2 \<Longrightarrow> length o2i = k"
  shows "\<exists>R. second_residual fit_offset fit_offset2 oi o2i gi Ms1 Mu1 var_ss cov_us = Inr R \<and>
     entries k n R (\<lambda>j c. residual2_formula fit_offset fit_offset2 (oi ! j) (o2i ! j) (gi ! j)
        (Ms1 ! j ! c) (Mu1 ! j ! c) (var_ss ! j ! c) (cov_us ! j ! c))"
proof -
  note eMs = entries_self [OF Ms1] and eMu = entries_self [OF Mu1]
    and evs = entries_self [OF vs] and ecu = entries_self [OF cu]
  from mat_op_entries [OF scale_entries [OF eMs, of 2] eMu, of "(*)"]
  obtain mm where mm: "mat_op (*) (scale 2 Ms1) Mu1 = Inr mm"
    and emm: "entries k n mm (\<lambda>j c. 2 * (Ms1 ! j ! c) * (Mu1 ! j ! c))" by blast
  from mat_op_entries [OF ecu emm, of "(-)"]
  obtain lhs where lhs: "mat_op (-) cov_us mm = Inr lhs"
    and elhs: "entries k n lhs (\<lambda>j c. cov_us ! j ! c - 2 * (Ms1 ! j ! c) * (Mu1 ! j ! c))"
    by blast
  from mat_op_entries [OF evs scale_entries [OF square_entries [OF eMs], of 2], of "(-)"]
  obtain vsq where vsq: "mat_op (-) var_ss (scale 2 (square Ms1)) = Inr vsq"
    and evsq: "entries k n vsq (\<lambda>j c. var_ss ! j ! c - 2 * (Ms1 ! j ! c) ^ 2)" by blast
  from vec_mat_op_entries [OF gi evsq, of "(*)"]
  obtain gv where gv: "vec_mat_op (*) gi vsq = Inr gv"
    and egv: "entries k n gv (\<lambda>j c. gi ! j * (var_ss ! j ! c - 2 * (Ms1 ! j ! c) ^ 2))" by blast
  from mat_op_entries [OF elhs egv, of "(-)"]
  obtain ra where ra: "mat_op (-) lhs gv = Inr ra"
    and era: "entries k n ra (\<lambda>j c. (cov_us ! j ! c - 2 * (Ms1 ! j ! c) * (Mu1 ! j ! c))
        - gi ! j * (var_ss ! j ! c - 2 * (Ms1 ! j ! c) ^ 2))" by blast
  have "\<exists>rb. (if fit_offset
            then ebind (vec_mat_op (*) (map (\<lambda>x. 2 * x) oi) Ms1) (\<lambda>om. mat_op_into (+) ra om)
            else Inr ra) = Inr rb \<and>
      entries k n rb (\<lambda>j c. (cov_us ! j ! c - 2 * (Ms1 ! j ! c) * (Mu1 ! j ! c))
        - gi ! j * (var_ss ! j ! c - 2 * (Ms1 ! j ! c) ^ 2)
        + (if fit_offset then 2 * (oi ! j) * (Ms1 ! j ! c) else 0))"
  proof (cases fit_offset)
    case True
    with oi have "length (map (\<lambda>x. 2 * x) oi) = k" by simp
    from vec_mat_op_entries [OF this eMs, of "(*)"]
    obtain om where om: "vec_mat_op (*) (map (\<lambda>x. 2 * x) oi) Ms1 = Inr om"
      and eom: "entries k n om (\<lambda>j c. map (\<lambda>x. 2 * x) oi ! j * (Ms1 ! j ! c))" by blast
    from eom oi True have eom': "entries k n om (\<lambda>j c. 2 * (oi ! j) * (Ms1 ! j ! c))"
      by (auto elim!: entries_cong)
    from mat_op_into_entries [OF era eom', of "(+)"] om True show ?thesis by auto
  next
    case False
    with era show ?thesis by simp
  qed
  then obtain rb where rb: "(if fit_offset
            then ebind (vec_mat_op (*) (map (\<lambda>x. 2 * x) oi) Ms1) (\<lambda>om. mat_op_into (+) ra om)
            else Inr ra) = Inr rb"
    and erb: "entries k n rb (\<lambda>j c. (cov_us ! j ! c - 2 * (Ms1 ! j ! c) * (Mu1 ! j ! c))
        - gi ! j * (var_ss ! j ! c - 2 * (Ms1 ! j ! c) ^ 2)
        + (if fit_offset then 2 * (oi ! j) * (Ms1 ! j ! c) else 0))" by blast
  have "\<exists>R. (if fit_offset2 then mat_vec_op_into (-) rb o2i else Inr rb) = Inr R \<and>
      entries k n R (\<lambda>j c. residual2_formula fit_offset fit_offset2 (oi ! j) (o2i ! j) (gi ! j)
        (Ms1 ! j ! c) (Mu1 ! j ! c) (var_ss ! j ! c) (cov_us ! j ! c))"
  proof (cases fit_offset2)
    case True
    from mat_vec_op_into_entries [OF erb o2i [OF True], of "(-)"] True
    show ?thesis by (auto simp: residual2_formula_def)
  next
    case False
    with erb show ?thesis by (simp add: residual2_formula_def)
  qed
  with mm lhs vsq gv ra rb show ?thesis
    by (auto simp: second_residual_def)
qed

section \<open>Mask reads and writes\<close>

lemma gather_Nil [simp]: "gather [] xs = []" "gather idx [] = []"
  by (simp_all add: gather_def)

lemma gather_Cons [simp]:
  "gather (b # bs) (x # xs) = (if b then x # gather bs xs else gather bs xs)"
  by (simp add: gather_def)

lemma count_true_Cons [simp]:
  "count_true [] = 0" "count_true (b # bs) = (if b then Suc (count_true bs) else count_true bs)"
  by (simp_all add: count_true_def)

lemma length_gather: "length idx = length xs \<Longrightarrow> length (gather idx xs) = count_true idx"
  by (induction idx xs rule: list_induct2) simp_all

lemma gather_all_true: "gather (replicate (length xs) True) xs = xs"
  by (induction xs) simp_all

lemma length_scatter [simp]: "length (scatter a idx v) = length a"
  by (induction a idx v rule: scatter.induct) (simp_all split: list.splits)

lemma scatter_excluded:
  "g < length a \<Longrightarrow> g < length idx \<Longrightarrow> \<not> idx ! g \<Longrightarrow> scatter a idx v ! g = a ! g"
proof (induction a idx v arbitrary: g rule: scatter.induct)
  case (1 a as b bs vs)
  then show ?case by (cases g) (auto split: list.splits)
qed simp_all

lemma put_mask_excluded:
  assumes "put_mask a idx v = Inr a'" "g < length idx" "\<not> idx ! g"
  shows "a' ! g = a ! g" "length a' = length a" "length idx = length a"
  using assms by (auto simp: put_mask_def scatter_excluded split: if_splits)

lemma scatterM_excluded:
  "scatterM f Z idx V = Inr Z' \<Longrightarrow> g < length Z \<Longrightarrow> g < length idx \<Longrightarrow> \<not> idx ! g
     \<Longrightarrow> Z' ! g = Z ! g"
proof (induction f Z idx V arbitrary: Z' g rule: scatterM.induct)
  case (1 f a as b bs vs)
  then show ?case
    by (cases g) (auto simp: ebind_eq_Inr split: if_splits list.splits)
qed simp_all

lemma put_cols_excluded:
  assumes "put_cols Z idx V = Inr Z'" "g < length idx" "\<not> idx ! g"
  shows "Z' ! g = Z ! g" "length idx = length Z"
  using assms by (auto simp: put_cols_def scatterM_excluded split: if_splits)

lemma scatterM_gather:
  "scatterM fit_rows Z idx V = Inr Z' \<Longrightarrow> length idx = length Z \<Longrightarrow>
   length V = count_true idx \<Longrightarrow> list_all2 (\<lambda>z v. length v = length z) (gather idx Z) V \<Longrightarrow>
   gather idx Z' = V"
proof (induction fit_rows Z idx V arbitrary: Z' rule: scatterM.induct)
  case (1 a as b bs vs)
  show ?case
  proof (cases b)
    case True
    with 1(3-) obtain v vs' where vs: "vs = v # vs'" by (cases vs) auto
    with True 1(3-) obtain c cs where c: "fit_rows a v = Inr c"
      and cs: "scatterM fit_rows as bs vs' = Inr cs" and Z': "Z' = c # cs"
      by (auto simp: ebind_eq_Inr)
    from 1(6) True vs have "length v = length a" by simp
    with c have "c = v" by (simp add: fit_rows_def)
    moreover from 1(1) [OF True vs cs] 1(4-) True vs have "gather bs cs = vs'" by simp
    ultimately show ?thesis using True vs Z' by simp
  next
    case False
    with 1(3-) obtain cs where cs: "scatterM fit_rows as bs vs = Inr cs" and Z': "Z' = a # cs"
      by (auto simp: ebind_eq_Inr)
    from 1(2) [OF False cs] 1(4-) False have "gather bs cs = vs" by simp
    with False Z' show ?thesis by simp
  qed
qed simp_all


lemma scatterM_length: "scatterM f Z idx V = Inr Z' \<Longrightarrow> length Z' = length Z"
proof (induction f Z idx V arbitrary: Z' rule: scatterM.induct)
  case (1 f a as b bs vs)
  then show ?case
    by (auto simp: ebind_eq_Inr split: if_splits list.splits)
qed simp_all

lemma put_cols_length: "put_cols Z idx V = Inr Z' \<Longrightarrow> length Z' = length Z"
  by (auto simp: put_cols_def scatterM_length split: if_splits)


lemma gather_zeros_like:
  "length idx = length M \<Longrightarrow> gather idx (zeros_like M) = zeros_like (gather idx M)"
  by (induction idx M rule: list_induct2) (simp_all add: zeros_like_def)

lemma put_cols_gather:
  assumes pc: "put_cols (zeros_like M) idx V = Inr Z'"
    and M1: "has_shape k n (gather idx M)" and V: "has_shape k n V"
  shows "gather idx Z' = V"
proof -
  from pc have li: "length idx = length M"
    by (auto simp: put_cols_def zeros_like_def split: if_splits)
  with M1 have k: "k = count_true idx" by (simp add: has_shape_def length_gather)
  with V pc have sm: "scatterM fit_rows (zeros_like M) idx V = Inr Z'"
    by (auto simp: put_cols_def has_shape_def split: if_splits)
  have "list_all2 (\<lambda>z v. length v = length z) (zeros_like (gather idx M)) V"
    using M1 V by (auto simp: list_all2_conv_all_nth has_shape_def zeros_like_def list_all_length)
  with li have "list_all2 (\<lambda>z v. length v = length z) (gather idx (zeros_like M)) V"
    by (simp add: gather_zeros_like)
  from scatterM_gather [OF sm _ _ this] li k V show ?thesis
    by (simp add: zeros_like_def has_shape_def)
qed

section \<open>The steps of the stochastic stage\<close>

lemma stochastic_stage_parts:
  assumes "stochastic_stage C fo fo2 mode s = Inr s'"
  obtains a1 Ms1 Mu1 Mss Mus var_ss cov_us sol_off sol_off2 sol_gam off off2 gam gi oi o2i
    r2a res2 where
    "(if n_distinct (velocity_genes s) > 1 then take_mask (velocity_genes s) (Ms s)
      else Inr (Ms s)) = Inr Ms1"
    "(if n_distinct (velocity_genes s) > 1 then take_mask (velocity_genes s) (Mu s)
      else Inr (Mu s)) = Inr Mu1"
    "(if n_distinct (velocity_genes s) > 1
      then subset_var (velocity_genes s) (adata s) else Inr (adata s)) = Inr a1"
    "second_order_moments C a1 = Inr (Mss, Mus)"
    "mat_op (-) (scale 2 Mss) Ms1 = Inr var_ss" "mat_op (+) (scale 2 Mus) Mu1 = Inr cov_us"
    "put_mask (offset s) (velocity_genes s) sol_off = Inr off"
    "put_mask (offset2 s) (velocity_genes s) sol_off2 = Inr off2"
    "put_mask (gamma s) (velocity_genes s) sol_gam = Inr gam"
    "take_mask (velocity_genes s) gam = Inr gi"
    "(if fo then take_mask (velocity_genes s) off else Inr []) = Inr oi"
    "(if fo2 then take_mask (velocity_genes s) off2 else Inr []) = Inr o2i"
    "second_residual fo fo2 oi o2i gi Ms1 Mu1 var_ss cov_us = Inr r2a"
    "(if n_distinct (velocity_genes s) > 1
      then put_cols (zeros_like (Ms s)) (velocity_genes s) r2a else Inr r2a) = Inr res2"
    "residual2 s' = Some res2" "offset s' = off" "offset2 s' = off2" "gamma s' = gam"
  using assms
  by (auto simp: stochastic_stage_def ebind_eq_Inr Let_def)

lemma ex_run: "compute_stochastic ex_collab True True None ex_velo0 = Inr ex_velo2"
  by (simp add: compute_stochastic_def stochastic_stage_def compute_deterministic_def
      np_defs ex_defs ex_velo2_def)

lemma ex_det: "if residual ex_velo0 = None
     then compute_deterministic ex_collab True ex_velo0 = Inr ex_velo1 else ex_velo1 = ex_velo0"
  by (simp add: compute_deterministic_def np_defs ex_defs)

section \<open>The estimator\<close>

text \<open>
  C10: with \<^verbatim>\<open>use_raw=True\<close> the constructor ignores the \<^verbatim>\<open>Ms\<close> and \<^verbatim>\<open>Mu\<close>
  arguments: the estimator it builds (or the exception it raises) is the same
  whatever they are, and its working matrices are the dataset's \<^verbatim>\<open>spliced\<close>
  and \<^verbatim>\<open>unspliced\<close> layers.
\<close>

theorem use_raw_ignores_matrix_arguments:
  "Velocity_init a Ms_arg Mu_arg sub res True = Velocity_init a None None sub res True \<and>
   (\<forall>s. Velocity_init a Ms_arg Mu_arg sub res True = Inr s \<longrightarrow>
        layers a ''spliced'' = Some (Ms s) \<and> layers a ''unspliced'' = Some (Mu s))"
  by (auto simp: Velocity_init_def ebind_eq_Inr get_layer_def split: option.splits)

theorem use_raw_ignores_matrix_arguments_witness:
  "Velocity_init ex_data (Some [[0, 0]]) (Some [[1, 1]]) None None True
     = Inr (ex_velo0\<lparr>Ms := [[3, 4], [5, 6], [1, 1]], Mu := [[7, 8], [9, 10], [2, 2]]\<rparr>) \<and>
   layers ex_data ''spliced'' = Some (Ms (ex_velo0\<lparr>Ms := [[3, 4], [5, 6], [1, 1]], Mu := [[7, 8], [9, 10], [2, 2]]\<rparr>)) \<and>
   layers ex_data ''unspliced'' = Some (Mu (ex_velo0\<lparr>Ms := [[3, 4], [5, 6], [1, 1]], Mu := [[7, 8], [9, 10], [2, 2]]\<rparr>))"
proof -
  have run: "Velocity_init ex_data (Some [[0, 0]]) (Some [[1, 1]]) None None True
     = Inr (ex_velo0\<lparr>Ms := [[3, 4], [5, 6], [1, 1]], Mu := [[7, 8], [9, 10], [2, 2]]\<rparr>)"
    by (simp add: Velocity_init_def get_layer_def ex_defs)
  with use_raw_ignores_matrix_arguments [of ex_data "Some [[0, 0]]" "Some [[1, 1]]" None None]
  show ?thesis by blast
qed

text \<open>
  C3: the constructor sets the velocity-gene mask to true for every gene, and
  \<^verbatim>\<open>compute_deterministic\<close> sets the entry of every gene \<open>g\<close> to
  \<open>r2[g] > 0.01 \<and> gamma[g] > 0.01\<close>, for the \<open>r2\<close> and \<open>gamma\<close> that this stage
  fitted (one value for each gene).
\<close>

theorem velocity_genes_rule:
  "(Velocity_init a Ms_arg Mu_arg sub res raw = Inr s \<longrightarrow>
      velocity_genes s = replicate (length (Ms s)) True) \<and>
   (compute_deterministic C fit_offset s1 = Inr s2 \<and> length (r2 s2) = length (gamma s2) \<longrightarrow>
      length (velocity_genes s2) = length (gamma s2) \<and>
      (\<forall>g < length (gamma s2).
         velocity_genes s2 ! g = (r2 s2 ! g > 1 / 100 \<and> gamma s2 ! g > 1 / 100)))"
proof -
  have init: "velocity_genes s = replicate (length (Ms s)) True"
    if "Velocity_init a Ms_arg Mu_arg sub res raw = Inr s"
    using that by (auto simp: Velocity_init_def ebind_eq_Inr split: if_splits)
  have mask: "velocity_genes s2 =
      map (\<lambda>(r, g). r > 1 / 100 \<and> g > 1 / 100) (zip (r2 s2) (gamma s2))"
    if "compute_deterministic C fit_offset s1 = Inr s2" "length (r2 s2) = length (gamma s2)"
    using that
    apply (clarsimp simp: compute_deterministic_def ebind_eq_Inr)
    apply (simp add: broadcast_pure_same zip_map_map)
    apply (auto simp: comp_def split_def)
    done
  show ?thesis using init mask by auto
qed

theorem velocity_genes_rule_witness:
  "Velocity_init ex_data None None None None False = Inr ex_velo0 \<and>
   velocity_genes ex_velo0 = replicate (length (Ms ex_velo0)) True \<and>
   compute_deterministic ex_collab False ex_velo0 = Inr ex_velo1 \<and>
   length (r2 ex_velo1) = length (gamma ex_velo1) \<and>
   length (velocity_genes ex_velo1) = length (gamma ex_velo1) \<and>
   length (gamma ex_velo1) = 3 \<and>
   velocity_genes ex_velo1 ! 0 = (r2 ex_velo1 ! 0 > 1 / 100 \<and> gamma ex_velo1 ! 0 > 1 / 100) \<and>
   velocity_genes ex_velo1 ! 1 = (r2 ex_velo1 ! 1 > 1 / 100 \<and> gamma ex_velo1 ! 1 > 1 / 100) \<and>
   velocity_genes ex_velo1 ! 2 = (r2 ex_velo1 ! 2 > 1 / 100 \<and> gamma ex_velo1 ! 2 > 1 / 100)"
proof -
  have init: "Velocity_init ex_data None None None None False = Inr ex_velo0"
    by (simp add: Velocity_init_def get_layer_def ex_defs)
  have det: "compute_deterministic ex_collab False ex_velo0 = Inr ex_velo1"
    by (simp add: compute_deterministic_def np_defs ex_defs)
  have len: "length (r2 ex_velo1) = length (gamma ex_velo1)"
    by (simp add: ex_defs)
  have two: "length (gamma ex_velo1) = 3"
    by (simp add: ex_defs)
  from velocity_genes_rule [of ex_data None None None None False ex_velo0
      ex_collab False ex_velo0 ex_velo1] init det len two
  show ?thesis by simp
qed


text \<open>
  C2: when the velocity-gene mask at the end of the deterministic stage holds
  both values and excludes gene \<open>g\<close>, then after \<^verbatim>\<open>compute_stochastic\<close> column
  \<open>g\<close> of the second-order residual is zero for every cell, and the entries for
  \<open>g\<close> of \<^verbatim>\<open>offset\<close>, \<^verbatim>\<open>offset2\<close> and \<^verbatim>\<open>gamma\<close> are those of the end of the
  deterministic stage. Here \<open>s\<close> is the estimator at the end of that stage: the
  one \<^verbatim>\<open>compute_stochastic\<close> is called on, or what \<^verbatim>\<open>compute_deterministic\<close>
  makes of it when it has no residual yet.
\<close>

theorem excluded_gene_untouched:
  assumes run: "compute_stochastic C fit_offset fit_offset2 mode s0 = Inr s'"
    and det: "if residual s0 = None then compute_deterministic C fit_offset s0 = Inr s else s = s0"
    and sub: "n_distinct (velocity_genes s) > 1"
    and g: "g < length (velocity_genes s)" and ex: "\<not> velocity_genes s ! g"
  shows "(\<exists>R. residual2 s' = Some R \<and> length R = length (velocity_genes s) \<and>
              R ! g = replicate (length (Ms s ! g)) 0) \<and>
         length (offset s') = length (velocity_genes s) \<and> offset s' ! g = offset s ! g \<and>
         length (offset2 s') = length (velocity_genes s) \<and> offset2 s' ! g = offset2 s ! g \<and>
         length (gamma s') = length (velocity_genes s) \<and> gamma s' ! g = gamma s ! g"
proof -
  from run det have st: "stochastic_stage C fit_offset fit_offset2 mode s = Inr s'"
    by (auto simp: compute_stochastic_def split: if_splits)
  from st show ?thesis
  proof (cases rule: stochastic_stage_parts)
    case (1 a1 Ms1 Mu1 Mss Mus var_ss cov_us sol_off sol_off2 sol_gam off off2 gam gi oi o2i r2a res2)
    note po = put_mask_excluded [OF 1(7) g ex]
      and po2 = put_mask_excluded [OF 1(8) g ex]
      and pg = put_mask_excluded [OF 1(9) g ex]
    from 1(14) sub have pc: "put_cols (zeros_like (Ms s)) (velocity_genes s) r2a = Inr res2"
      by simp
    note pcx = put_cols_excluded [OF pc g ex]
    from pcx(2) have len: "length (velocity_genes s) = length (Ms s)"
      by (simp add: zeros_like_def)
    from put_cols_length [OF pc] have lres: "length res2 = length (Ms s)"
      by (simp add: zeros_like_def)
    from pcx(1) g len have "res2 ! g = replicate (length (Ms s ! g)) 0"
      by (simp add: zeros_like_def)
    with 1(15-18) po po2 pg lres len show ?thesis by simp
  qed
qed

theorem excluded_gene_untouched_witness:
  "compute_stochastic ex_collab True True None ex_velo0 = Inr ex_velo2 \<and>
   (if residual ex_velo0 = None
    then compute_deterministic ex_collab True ex_velo0 = Inr ex_velo1 else ex_velo1 = ex_velo0) \<and>
   n_distinct (velocity_genes ex_velo1) > 1 \<and> 1 < length (velocity_genes ex_velo1) \<and>
   \<not> velocity_genes ex_velo1 ! 1 \<and>
   residual2 ex_velo2 = Some [[17, 56], [0, 0], [18, 120]] \<and>
   [[17, 56], [0, 0], [18, 120]] ! 1 = replicate (length (Ms ex_velo1 ! 1)) (0::real) \<and>
   offset ex_velo2 ! 1 = offset ex_velo1 ! 1 \<and> offset2 ex_velo2 ! 1 = offset2 ex_velo1 ! 1 \<and>
   gamma ex_velo2 ! 1 = gamma ex_velo1 ! 1"
proof -
  have sub: "n_distinct (velocity_genes ex_velo1) > 1"
    and g: "1 < length (velocity_genes ex_velo1)" and ex: "\<not> velocity_genes ex_velo1 ! 1"
    by (simp_all add: n_distinct_def ex_defs)
  have r: "residual2 ex_velo2 = Some [[17, 56], [0, 0], [18, 120]]"
    by (simp add: ex_velo2_def)
  from excluded_gene_untouched [OF ex_run ex_det sub g ex] r
  have "[[17, 56], [0, 0], [18, 120]] ! 1 = replicate (length (Ms ex_velo1 ! 1)) (0::real)"
    and "offset ex_velo2 ! 1 = offset ex_velo1 ! 1"
    and "offset2 ex_velo2 ! 1 = offset2 ex_velo1 ! 1"
    and "gamma ex_velo2 ! 1 = gamma ex_velo1 ! 1"
    by auto
  with ex_run ex_det sub g ex r show ?thesis by simp
qed

text \<open>
  C4: in \<^verbatim>\<open>compute_stochastic\<close> the second-order residual of the active genes
  is, for the \<open>j\<close>-th active gene and cell \<open>c\<close>,
  \<open>(cov_us - 2 Ms Mu) - gamma (var_ss - 2 Ms\<^sup>2)\<close>, with \<open>2 offset Ms\<close> added exactly
  when \<^verbatim>\<open>fit_offset\<close> is set and \<open>offset2\<close> subtracted exactly when
  \<^verbatim>\<open>fit_offset2\<close> is set (\<open>residual2_formula\<close>). \<open>Ms\<close>, \<open>Mu\<close>, \<open>gamma\<close> and the
  offsets are those of the active genes, after the stochastic solve; \<open>var_ss\<close>
  and \<open>cov_us\<close> are \<open>2 Mss - Ms\<close> and \<open>2 Mus + Mu\<close>; the working matrices have one
  shape, with one column for each active gene.
\<close>

theorem second_order_residual_formula:
  assumes run: "compute_stochastic C fit_offset fit_offset2 mode s0 = Inr s'"
    and det: "if residual s0 = None then compute_deterministic C fit_offset s0 = Inr s else s = s0"
    and idx: "idx = velocity_genes s" and sub: "sub = (n_distinct idx > 1)"
    and Ms1: "Ms1 = (if sub then gather idx (Ms s) else Ms s)"
    and Mu1: "Mu1 = (if sub then gather idx (Mu s) else Mu s)"
    and mom: "ebind (if sub then subset_var idx (adata s) else Inr (adata s))
                (second_order_moments C) = Inr (Mss, Mus)"
    and vs: "mat_op (-) (scale 2 Mss) Ms1 = Inr var_ss"
    and cu: "mat_op (+) (scale 2 Mus) Mu1 = Inr cov_us"
    and shapes: "has_shape k n Ms1" "has_shape k n Mu1" "has_shape k n var_ss"
      "has_shape k n cov_us"
    and act: "length (gather idx (gamma s')) = k"
    and j: "j < k" and c: "c < n"
  shows "\<exists>R2. residual2 s' = Some R2 \<and>
           (if sub then gather idx R2 else R2) ! j ! c =
             residual2_formula fit_offset fit_offset2
               (gather idx (offset s') ! j) (gather idx (offset2 s') ! j)
               (gather idx (gamma s') ! j)
               (Ms1 ! j ! c) (Mu1 ! j ! c) (var_ss ! j ! c) (cov_us ! j ! c)"
proof -
  from run det have st: "stochastic_stage C fit_offset fit_offset2 mode s = Inr s'"
    by (auto simp: compute_stochastic_def split: if_splits)
  from st show ?thesis
  proof (cases rule: stochastic_stage_parts)
  case (1 a1 Ms1' Mu1' Mss' Mus' var_ss' cov_us' sol_off sol_off2 sol_gam off off2 gam gi oi o2i
      r2a res2)
  from 1(1) Ms1 idx sub have m1: "Ms1' = Ms1" by (auto simp: take_mask_def split: if_splits)
  from 1(2) Mu1 idx sub have m2: "Mu1' = Mu1" by (auto simp: take_mask_def split: if_splits)
  from 1(3,4) mom idx sub have "Mss' = Mss" "Mus' = Mus" by (auto simp: ebind_eq_Inr)
  with 1(5,6) vs cu m1 m2 have v: "var_ss' = var_ss" "cov_us' = cov_us" by simp_all
  from 1(10) idx 1(18) have gi: "gi = gather idx (gamma s')" and lg: "length idx = length gam"
    by (auto simp: take_mask_def split: if_splits)
  from 1(7,8,9) idx have lens: "length off = length idx" "length off2 = length idx"
    by (auto simp: put_mask_def split: if_splits)
  from 1(11) idx 1(16) have oi: "fit_offset \<Longrightarrow> oi = gather idx (offset s')"
    by (auto simp: take_mask_def split: if_splits)
  from 1(12) idx 1(17) have o2i: "fit_offset2 \<Longrightarrow> o2i = gather idx (offset2 s')"
    by (auto simp: take_mask_def split: if_splits)
  from act gi have lgi: "length gi = k" by simp
  have loi: "length oi = k" if fit_offset
    using that oi act lens lg 1(16,18) by (simp add: length_gather)
  have lo2i: "length o2i = k" if fit_offset2
    using that o2i act lens lg 1(17,18) by (simp add: length_gather)
  have "\<exists>R. second_residual fit_offset fit_offset2 oi o2i gi Ms1 Mu1 var_ss cov_us = Inr R \<and>
      entries k n R (\<lambda>j c. residual2_formula fit_offset fit_offset2 (oi ! j) (o2i ! j)
      (gi ! j) (Ms1 ! j ! c) (Mu1 ! j ! c) (var_ss ! j ! c) (cov_us ! j ! c))"
    by (rule second_residual_entries [OF shapes lgi]) (simp_all add: loi lo2i)
  with 1(13) m1 m2 v
  have e: "entries k n r2a (\<lambda>j c. residual2_formula fit_offset fit_offset2 (oi ! j) (o2i ! j)
      (gi ! j) (Ms1 ! j ! c) (Mu1 ! j ! c) (var_ss ! j ! c) (cov_us ! j ! c))"
    by auto
  then have val: "r2a ! j ! c = residual2_formula fit_offset fit_offset2 (oi ! j) (o2i ! j)
      (gi ! j) (Ms1 ! j ! c) (Mu1 ! j ! c) (var_ss ! j ! c) (cov_us ! j ! c)"
    using j c by (simp add: entries_def)
  have val': "r2a ! j ! c = residual2_formula fit_offset fit_offset2
      (gather idx (offset s') ! j) (gather idx (offset2 s') ! j) (gather idx (gamma s') ! j)
      (Ms1 ! j ! c) (Mu1 ! j ! c) (var_ss ! j ! c) (cov_us ! j ! c)"
  proof -
    have "residual2_formula fit_offset fit_offset2 (oi ! j) (o2i ! j) (gi ! j)
        (Ms1 ! j ! c) (Mu1 ! j ! c) (var_ss ! j ! c) (cov_us ! j ! c)
      = residual2_formula fit_offset fit_offset2 (gather idx (offset s') ! j) (o2i ! j) (gi ! j)
        (Ms1 ! j ! c) (Mu1 ! j ! c) (var_ss ! j ! c) (cov_us ! j ! c)"
      using oi by (cases fit_offset) (simp_all add: residual2_formula_def)
    also have "\<dots> = residual2_formula fit_offset fit_offset2 (gather idx (offset s') ! j)
        (gather idx (offset2 s') ! j) (gi ! j)
        (Ms1 ! j ! c) (Mu1 ! j ! c) (var_ss ! j ! c) (cov_us ! j ! c)"
      using o2i by (cases fit_offset2) (simp_all add: residual2_formula_def)
    finally show ?thesis using val gi by simp
  qed
  have "(if sub then gather idx res2 else res2) = r2a"
  proof (cases sub)
    case True
    with 1(14) idx sub have pc: "put_cols (zeros_like (Ms s)) idx r2a = Inr res2" by simp
    from e have sh: "has_shape k n r2a" by (simp add: entries_def)
    from True Ms1 shapes(1) have "has_shape k n (gather idx (Ms s))" by simp
    from put_cols_gather [OF pc this sh] True show ?thesis by simp
  next
    case False
    with 1(14) idx sub show ?thesis by simp
  qed
  with val' 1(15) show ?thesis by auto
qed
qed

theorem second_order_residual_formula_witness:
  "compute_stochastic ex_collab True True None ex_velo0 = Inr ex_velo2 \<and>
   (if residual ex_velo0 = None
    then compute_deterministic ex_collab True ex_velo0 = Inr ex_velo1 else ex_velo1 = ex_velo0) \<and>
   ebind (if n_distinct (velocity_genes ex_velo1) > 1
          then subset_var (velocity_genes ex_velo1) (adata ex_velo1) else Inr (adata ex_velo1))
     (second_order_moments ex_collab) = Inr ([[1, 2], [1, 3]], [[2, 4], [3, 9]]) \<and>
   mat_op (-) (scale 2 [[1, 2], [1, 3]]) [[1, 2], [1, 3]] = Inr [[1, 2], [1, 3]] \<and>
   mat_op (+) (scale 2 [[2, 4], [3, 9]]) [[2, 4], [3, 9]] = Inr [[6, 12], [9, 27]] \<and>
   has_shape 2 2 [[1, 2], [1, 3]] \<and> has_shape 2 2 [[2, 4], [3, 9]] \<and>
   has_shape 2 2 [[6, 12], [9, 27]] \<and>
   length (gather (velocity_genes ex_velo1) (gamma ex_velo2)) = 2 \<and>
   residual2 ex_velo2 = Some [[17, 56], [0, 0], [18, 120]] \<and>
   gather (velocity_genes ex_velo1) [[17, 56], [0, 0], [18, 120]] ! 1 ! 1
     = residual2_formula True True 5 3 8 3 9 3 27"
proof -
  have sub: "(n_distinct (velocity_genes ex_velo1) > 1) = True"
    by (simp add: n_distinct_def ex_defs)
  have Ms1: "[[1, 2], [1, 3]]
      = (if True then gather (velocity_genes ex_velo1) (Ms ex_velo1) else Ms ex_velo1)"
    and Mu1: "[[2, 4], [3, 9]]
      = (if True then gather (velocity_genes ex_velo1) (Mu ex_velo1) else Mu ex_velo1)"
    by (simp_all add: ex_defs)
  have mom: "ebind (if True then subset_var (velocity_genes ex_velo1) (adata ex_velo1)
        else Inr (adata ex_velo1)) (second_order_moments ex_collab)
      = Inr ([[1, 2], [1, 3]], [[2, 4], [3, 9]])"
    by (simp add: np_defs ex_defs)
  have vs: "mat_op (-) (scale 2 [[1, 2], [1, 3]]) [[1, 2], [1, 3]] = Inr [[1, 2], [1, 3]]"
    and cu: "mat_op (+) (scale 2 [[2, 4], [3, 9]]) [[2, 4], [3, 9]] = Inr [[6, 12], [9, 27]]"
    by (simp_all add: np_defs)
  have sh: "has_shape 2 2 [[1, 2], [1, 3]]" "has_shape 2 2 [[2, 4], [3, 9]]"
    "has_shape 2 2 [[1, 2], [1, 3]]" "has_shape 2 2 [[6, 12], [9, 27]]"
    by (simp_all add: has_shape_def)
  have act: "length (gather (velocity_genes ex_velo1) (gamma ex_velo2)) = 2"
    by (simp add: ex_defs ex_velo2_def)
  have r: "residual2 ex_velo2 = Some [[17, 56], [0, 0], [18, 120]]"
    by (simp add: ex_velo2_def)
  have vals: "gather (velocity_genes ex_velo1) (offset ex_velo2) ! 1 = 5"
    "gather (velocity_genes ex_velo1) (offset2 ex_velo2) ! 1 = 3"
    "gather (velocity_genes ex_velo1) (gamma ex_velo2) ! 1 = 8"
    by (simp_all add: ex_defs ex_velo2_def)
  from second_order_residual_formula [OF ex_run ex_det refl sub [THEN sym] Ms1 Mu1 mom vs cu sh act,
      of 1 1] r vals
  have "gather (velocity_genes ex_velo1) [[17, 56], [0, 0], [18, 120]] ! 1 ! 1
     = residual2_formula True True 5 3 8 3 9 3 27"
    by simp
  with ex_run ex_det mom vs cu sh act r sub show ?thesis by simp
qed

section \<open>The driver\<close>

lemmas drv_defs = velocity_body_def resolve_groups_def fit_stages_def view_of_def
  stochastic_mode_def ensure_moments_def first_fit_def rebuild_def
  write_results_def write_layers_def andthen_def skip_def set_layer_def assign_layer_def ensure_layer_def assign_layer_rows_def
  inplace_subset_var_def get_residuals_def get_pars_def get_pars_names_def moments_def
  Velocity_init_def compute_deterministic_def compute_stochastic_def stochastic_stage_def

text \<open>
  C5: when \<^verbatim>\<open>groups\<close> is a list of labels and no grouping annotation can be
  determined (\<^verbatim>\<open>groupby\<close> is not a column of the observation table, and neither
  \<^verbatim>\<open>clusters\<close> nor \<^verbatim>\<open>louvain\<close> is), the call raises the configuration error
  \<^verbatim>\<open>ValueError('groupby attribute not valid.')\<close>. Nothing is fitted: the dataset
  the call works on (the copy, or the caller's) is left as the moments step
  left it.
\<close>

theorem unresolved_groupby_raises:
  assumes "case groupby of None \<Rightarrow> True | Some k \<Rightarrow> obs (st ! data) k = None"
    and "obs (st ! data) ''clusters'' = None" and "obs (st ! data) ''louvain'' = None"
    and "data < length st"
  shows "velocity C vkey mode fit_offset fit_offset2 filter_genes (GroupList gs) groupby
           subset_for_fitting use_raw copy data st =
         ((if copy then st @ [ensure_moments C use_raw (st ! data)]
           else st[data := ensure_moments C use_raw (st ! data)]),
          Inl (ValueError ''groupby attribute not valid.''))"
  using assms
  by (auto simp: velocity_def velocity_body_def resolve_groups_def ensure_moments_def
      moments_def Let_def nth_append split: option.splits)

theorem unresolved_groupby_raises_witness:
  "(case Some ''batch'' of None \<Rightarrow> True | Some k \<Rightarrow> obs ([ex_data] ! 0) k = None) \<and>
   obs ([ex_data] ! 0) ''clusters'' = None \<and> obs ([ex_data] ! 0) ''louvain'' = None \<and>
   0 < length [ex_data] \<and>
   velocity ex_collab ''velocity'' (Some ''stochastic'') False False False (GroupList [''A''])
      (Some ''batch'') None False False 0 [ex_data]
     = ([ex_data], Inl (ValueError ''groupby attribute not valid.''))"
proof -
  have h: "case Some ''batch'' of None \<Rightarrow> True | Some k \<Rightarrow> obs ([ex_data] ! 0) k = None"
    "obs ([ex_data] ! 0) ''clusters'' = None" "obs ([ex_data] ! 0) ''louvain'' = None"
    "0 < length [ex_data]"
    by (simp_all add: ex_data_def)
  have l: "layers ex_data ''Ms'' \<noteq> None" by (simp add: ex_data_def)
  from unresolved_groupby_raises [OF h, of ex_collab "''velocity''" "Some ''stochastic''"
      False False False "[''A'']" None False False] h l
  show ?thesis by (simp add: ensure_moments_def)
qed

text \<open>
  C8: with \<^verbatim>\<open>copy=True\<close> every dataset that existed before the call, the
  caller's among them, is unchanged; the call works on a new object, which it
  returns. With \<^verbatim>\<open>copy=False\<close> the caller's dataset is replaced by what the body
  of the call makes of it, and \<^verbatim>\<open>None\<close> is returned.
\<close>

theorem copy_flag:
  assumes "data < length st"
  shows "take (length st) (fst (velocity C vkey mode fit_offset fit_offset2 filter_genes groups
            groupby subset_for_fitting use_raw True data st)) = st \<and>
         fst (velocity C vkey mode fit_offset fit_offset2 filter_genes groups
            groupby subset_for_fitting use_raw True data st)
           = st @ [fst (velocity_body C vkey mode fit_offset fit_offset2 filter_genes groups
                groupby subset_for_fitting use_raw (st ! data))] \<and>
         snd (velocity C vkey mode fit_offset fit_offset2 filter_genes groups
            groupby subset_for_fitting use_raw True data st)
           = (case snd (velocity_body C vkey mode fit_offset fit_offset2 filter_genes groups
                groupby subset_for_fitting use_raw (st ! data)) of
                None \<Rightarrow> Inr (Some (length st)) | Some e \<Rightarrow> Inl e) \<and>
         fst (velocity C vkey mode fit_offset fit_offset2 filter_genes groups
            groupby subset_for_fitting use_raw False data st)
           = st[data := fst (velocity_body C vkey mode fit_offset fit_offset2 filter_genes groups
                groupby subset_for_fitting use_raw (st ! data))] \<and>
         snd (velocity C vkey mode fit_offset fit_offset2 filter_genes groups
            groupby subset_for_fitting use_raw False data st)
           = (case snd (velocity_body C vkey mode fit_offset fit_offset2 filter_genes groups
                groupby subset_for_fitting use_raw (st ! data)) of
                None \<Rightarrow> Inr None | Some e \<Rightarrow> Inl e)"
  using assms
  by (auto simp: velocity_def Let_def nth_append split: prod.splits option.splits)


theorem copy_flag_witness:
  "0 < length [ex_data] \<and>
   take (length [ex_data]) (fst (velocity ex_collab ''velocity'' None False False False NoGroups
      None None False True 0 [ex_data])) = [ex_data] \<and>
   snd (velocity ex_collab ''velocity'' None False False False NoGroups
      None None False True 0 [ex_data]) = Inr (Some 1) \<and>
   layers (fst (velocity ex_collab ''velocity'' None False False False NoGroups
      None None False True 0 [ex_data]) ! 1) ''velocity'' = Some [[0, 0], [0, 0], [0, 0]] \<and>
   layers (fst (velocity ex_collab ''velocity'' None False False False NoGroups
      None None False False 0 [ex_data]) ! 0) ''velocity'' = Some [[0, 0], [0, 0], [0, 0]] \<and>
   snd (velocity ex_collab ''velocity'' None False False False NoGroups
      None None False False 0 [ex_data]) = Inr None"
proof -
  have h: "0 < length [ex_data]" by simp
  have ok: "snd (velocity_body ex_collab ''velocity'' None False False False NoGroups
      None None False ([ex_data] ! 0)) = None"
    by (simp add: drv_defs np_defs ex_defs)
  have lay: "layers (fst (velocity_body ex_collab ''velocity'' None False False False NoGroups
      None None False ([ex_data] ! 0))) ''velocity'' = Some [[0, 0], [0, 0], [0, 0]]"
    by (simp add: drv_defs np_defs ex_defs)
  from copy_flag [OF h, of ex_collab "''velocity''" None False False False NoGroups None None False]
    ok lay
  show ?thesis by simp
qed

text \<open>
  C7: after a successful call, each of the six parameter vectors is in the gene
  table under \<^verbatim>\<open>vkey\<close> followed by its name if and only if it holds more than
  one distinct value: then the column is the vector, and otherwise the column
  is what it was after the fitting stages and before the write loop. (Either is
  narrowed to the velocity genes when the filtering of lines 169-170 applies.)
  The third vector is \<^verbatim>\<open>beta\<close>; it never holds more than one value, so it is
  never written.
\<close>

theorem parameter_columns_written:
  assumes body: "velocity_body C vkey mode fit_offset fit_offset2 filter_genes groups groupby
                   subset_for_fitting use_raw a0 = (a', None)"
    and grp: "resolve_groups groups groupby (ensure_moments C use_raw a0) = Inr grp"
    and fit: "fit_stages C mode fit_offset fit_offset2 filter_genes grp subset_for_fitting use_raw
                (ensure_moments C use_raw a0) = (a2, Inr velo)"
  shows "(\<forall>i<6. var a' (vkey @ get_pars_names ! i) =
            (if filter_genes \<and> n_distinct (velocity_genes velo) > 1
             then map_option (gather_column (velocity_genes velo)) else id)
              (if column_distinct (get_pars velo ! i) > 1 then Some (get_pars velo ! i)
               else var a2 (vkey @ get_pars_names ! i))) \<and>
         get_pars_names ! 2 = ''_beta'' \<and> get_pars velo ! 2 = Floats (beta velo) \<and>
         \<not> column_distinct (Floats (beta velo)) > 1"
proof -
  from body_success [OF body grp fit]
  have w: "write_results vkey (stochastic_mode mode) filter_genes grp velo a2 = (a', None)" .
  have "column_distinct (Floats (beta velo)) \<le> 1"
    using fit_stages_beta [OF fit] n_distinct_replicate [of "length (Ms velo)" "1::real"]
    by simp
  then show ?thesis
    using write_results_var [OF w] write_pars_var [of _ vkey velo a2]
    by (simp add: get_pars_names_def get_pars_def)
qed

theorem parameter_columns_written_witness:
  "snd (velocity_body ex_collab ''velocity'' None False False False NoGroups None None False
          ex_data) = None \<and>
   resolve_groups NoGroups None (ensure_moments ex_collab False ex_data) = Inr None \<and>
   fit_stages ex_collab None False False False None None False
      (ensure_moments ex_collab False ex_data) = (ex_data, Inr ex_velo1) \<and>
   column_distinct (get_pars ex_velo1 ! 3) > 1 \<and>
   var (fst (velocity_body ex_collab ''velocity'' None False False False NoGroups None None False
          ex_data)) (''velocity'' @ get_pars_names ! 3) = Some (Floats [2, 0, 3]) \<and>
   \<not> column_distinct (get_pars ex_velo1 ! 2) > 1 \<and>
   var (fst (velocity_body ex_collab ''velocity'' None False False False NoGroups None None False
          ex_data)) (''velocity'' @ get_pars_names ! 2) = None"
proof -
  have ok: "snd (velocity_body ex_collab ''velocity'' None False False False NoGroups None None
      False ex_data) = None"
    by (simp add: drv_defs np_defs ex_defs)
  then have body: "velocity_body ex_collab ''velocity'' None False False False NoGroups None None
      False ex_data
    = (fst (velocity_body ex_collab ''velocity'' None False False False NoGroups None None
      False ex_data), None)"
    by (simp add: prod_eq_iff)
  have grp: "resolve_groups NoGroups None (ensure_moments ex_collab False ex_data) = Inr None"
    by (simp add: resolve_groups_def)
  have fit: "fit_stages ex_collab None False False False None None False
      (ensure_moments ex_collab False ex_data) = (ex_data, Inr ex_velo1)"
    by (simp add: drv_defs np_defs ex_defs)
  have d3: "column_distinct (get_pars ex_velo1 ! 3) > 1"
    and d2: "\<not> column_distinct (get_pars ex_velo1 ! 2) > 1"
    and p3: "get_pars ex_velo1 ! 3 = Floats [2, 0, 3]"
    and v: "var ex_data = Map.empty"
    by (simp_all add: get_pars_def n_distinct_def ex_defs)
  note col = parameter_columns_written [OF body grp fit, THEN conjunct1, rule_format]
  from col [of 3] d3 p3
  have g: "var (fst (velocity_body ex_collab ''velocity'' None False False False NoGroups None
          None False ex_data)) (''velocity'' @ get_pars_names ! 3) = Some (Floats [2, 0, 3])"
    by simp
  from col [of 2] d2 v
  have b: "var (fst (velocity_body ex_collab ''velocity'' None False False False NoGroups None
          None False ex_data)) (''velocity'' @ get_pars_names ! 2) = None"
    by simp
  from ok grp fit d3 d2 g b show ?thesis by simp
qed

text \<open>
  The dataset \<open>ex_prev\<close> is what a call in mode \<^verbatim>\<open>stochastic\<close> without gene
  filtering makes of \<open>ex_data\<close>.
\<close>

lemma ex_prev_is_output:
  "velocity_body ex_collab ''velocity'' (Some ''stochastic'') False False False NoGroups None None
     False ex_data = (ex_prev, None)"
  by (simp add: drv_defs np_defs ex_defs fun_upd_twist)

text \<open>
  C1, as the code has it: the result layers and the parameter columns are
  written only after the fitting stages have completed. When a fitting stage
  raises, the call raises the same exception and leaves the dataset either as
  the moments step of line 122 left it (with \<^verbatim>\<open>Ms\<close> and \<^verbatim>\<open>Mu\<close> added when they
  were missing), or, in a stochastic mode with \<^verbatim>\<open>filter_genes\<close> and a mask that
  holds both values, as that dataset narrowed to the velocity genes by line 144.
\<close>

theorem failed_fit_leaves_no_result_write:
  assumes grp: "resolve_groups groups groupby (ensure_moments C use_raw a0) = Inr grp"
    and fit: "fit_stages C mode fit_offset fit_offset2 filter_genes grp subset_for_fitting use_raw
                (ensure_moments C use_raw a0) = (a2, Inl e)"
  shows "velocity_body C vkey mode fit_offset fit_offset2 filter_genes groups groupby
           subset_for_fitting use_raw a0 = (a2, Some e) \<and>
         (a2 = ensure_moments C use_raw a0 \<or>
          stochastic_mode mode \<and> filter_genes \<and>
          (\<exists>velo. first_fit C fit_offset grp subset_for_fitting use_raw
                     (ensure_moments C use_raw a0) = Inr velo \<and>
                   n_distinct (velocity_genes velo) > 1 \<and>
                   subset_var (velocity_genes velo) (ensure_moments C use_raw a0) = Inr a2))"
proof -
  from grp fit have "velocity_body C vkey mode fit_offset fit_offset2 filter_genes groups groupby
           subset_for_fitting use_raw a0 = (a2, Some e)"
    by (simp add: velocity_body_def Let_def)
  moreover from fit have "a2 = ensure_moments C use_raw a0 \<or>
          stochastic_mode mode \<and> filter_genes \<and>
          (\<exists>velo. first_fit C fit_offset grp subset_for_fitting use_raw
                     (ensure_moments C use_raw a0) = Inr velo \<and>
                   n_distinct (velocity_genes velo) > 1 \<and>
                   subset_var (velocity_genes velo) (ensure_moments C use_raw a0) = Inr a2)"
    by (auto simp: fit_stages_def split: sum.splits if_splits)
  ultimately show ?thesis by simp
qed

theorem failed_fit_leaves_no_result_write_witness:
  "resolve_groups NoGroups None (ensure_moments ex_collab True ex_raw) = Inr None \<and>
   snd (fit_stages ex_collab (Some ''stochastic'') False False True None None True
      (ensure_moments ex_collab True ex_raw)) = Inl (KeyError ''Ms'') \<and>
   velocity_body ex_collab ''velocity'' (Some ''stochastic'') False False True NoGroups None None
      True ex_raw
     = (fst (fit_stages ex_collab (Some ''stochastic'') False False True None None True
          (ensure_moments ex_collab True ex_raw)), Some (KeyError ''Ms''))"
proof -
  have grp: "resolve_groups NoGroups None (ensure_moments ex_collab True ex_raw) = Inr None"
    by (simp add: resolve_groups_def)
  have err: "snd (fit_stages ex_collab (Some ''stochastic'') False False True None None True
      (ensure_moments ex_collab True ex_raw)) = Inl (KeyError ''Ms'')"
    by (simp add: drv_defs np_defs ex_defs)
  then have fit: "fit_stages ex_collab (Some ''stochastic'') False False True None None True
      (ensure_moments ex_collab True ex_raw)
    = (fst (fit_stages ex_collab (Some ''stochastic'') False False True None None True
      (ensure_moments ex_collab True ex_raw)), Inl (KeyError ''Ms''))"
    by (simp add: prod_eq_iff)
  from failed_fit_leaves_no_result_write [OF grp fit, of "''velocity''"] grp err
  show ?thesis by simp
qed

text \<open>
  C1 as stated fails: with \<^verbatim>\<open>use_raw=True\<close>, \<^verbatim>\<open>filter_genes=True\<close> and mode
  \<^verbatim>\<open>stochastic\<close> on a dataset without an \<^verbatim>\<open>Ms\<close> layer, the deterministic fit
  succeeds on the raw counts, the dataset is narrowed from three genes to two,
  and the stochastic stage then raises \<^verbatim>\<open>KeyError('Ms')\<close> when the estimator is
  rebuilt. With \<^verbatim>\<open>copy=False\<close> the caller's dataset stays narrowed.
\<close>

theorem narrowed_before_failure_counterexample:
  "snd (velocity ex_collab ''velocity'' (Some ''stochastic'') False False True NoGroups None None
          True False 0 [ex_raw]) = Inl (KeyError ''Ms'') \<and>
   n_vars ex_raw = 3 \<and>
   layers ex_raw ''spliced'' = Some [[3, 4], [5, 6], [1, 1]] \<and>
   n_vars (fst (velocity ex_collab ''velocity'' (Some ''stochastic'') False False True NoGroups
          None None True False 0 [ex_raw]) ! 0) = 2 \<and>
   layers (fst (velocity ex_collab ''velocity'' (Some ''stochastic'') False False True NoGroups
          None None True False 0 [ex_raw]) ! 0) ''spliced'' = Some [[3, 4], [5, 6]]"
proof -
  have e: "snd (velocity_body ex_collab ''velocity'' (Some ''stochastic'') False False True
      NoGroups None None True ex_raw) = Some (KeyError ''Ms'')"
    and n: "n_vars (fst (velocity_body ex_collab ''velocity'' (Some ''stochastic'') False False
      True NoGroups None None True ex_raw)) = 2"
    and l: "layers (fst (velocity_body ex_collab ''velocity'' (Some ''stochastic'') False False
      True NoGroups None None True ex_raw)) ''spliced'' = Some [[3, 4], [5, 6]]"
    by (simp_all add: drv_defs np_defs ex_defs)
  have before: "n_vars ex_raw = 3" "layers ex_raw ''spliced'' = Some [[3, 4], [5, 6], [1, 1]]"
    by (simp_all add: ex_defs)
  have "(0::nat) < length [ex_raw]" by simp
  from velocity_in_place [OF this, of ex_collab "''velocity''" "Some ''stochastic''" False False
      True NoGroups None None True] e n l before
  show ?thesis by simp
qed

text \<open>
  C6, as the code has it: with a mode that is \<^verbatim>\<open>None\<close> or is not a substring of
  \<^verbatim>\<open>stochastic\<close>, \<^verbatim>\<open>bayes\<close> or \<^verbatim>\<open>alpha\<close>, the fitting stages are the deterministic
  fit alone and no second-order residual is computed. After a successful call
  every layer other than \<^verbatim>\<open>vkey\<close> is what it was after the moments step, the
  layer \<^verbatim>\<open>'variance_' + vkey\<close> is what it was before the call (so it is not
  created), and without a group of cells the layer \<^verbatim>\<open>vkey\<close> is the first-order
  residual; each of them narrowed to the velocity genes when \<^verbatim>\<open>filter_genes\<close>
  is set and the mask holds both values (lines 169-170).
\<close>

theorem deterministic_mode_layers:
  assumes det: "\<not> stochastic_mode mode"
    and grp: "resolve_groups groups groupby (ensure_moments C use_raw a0) = Inr grp"
    and first: "first_fit C fit_offset grp subset_for_fitting use_raw (ensure_moments C use_raw a0)
                  = Inr velo"
    and body: "velocity_body C vkey mode fit_offset fit_offset2 filter_genes groups groupby
                 subset_for_fitting use_raw a0 = (a', None)"
  shows "fit_stages C mode fit_offset fit_offset2 filter_genes grp subset_for_fitting use_raw
           (ensure_moments C use_raw a0) = (ensure_moments C use_raw a0, Inr velo) \<and>
         residual2 velo = None \<and>
         layers a' (''variance_'' @ vkey) =
           (if filter_genes \<and> n_distinct (velocity_genes velo) > 1
            then map_option (gather (velocity_genes velo)) else id)
             (layers a0 (''variance_'' @ vkey)) \<and>
         (\<forall>k. k \<noteq> vkey \<longrightarrow> layers a' k =
           (if filter_genes \<and> n_distinct (velocity_genes velo) > 1
            then map_option (gather (velocity_genes velo)) else id)
             (layers (ensure_moments C use_raw a0) k)) \<and>
         (grp = None \<longrightarrow> layers a' vkey =
           (if filter_genes \<and> n_distinct (velocity_genes velo) > 1
            then map_option (gather (velocity_genes velo)) else id) (residual velo))"
proof -
  let ?a1 = "ensure_moments C use_raw a0"
  from det first have fs: "fit_stages C mode fit_offset fit_offset2 filter_genes grp
      subset_for_fitting use_raw ?a1 = (?a1, Inr velo)"
    by (simp add: fit_stages_def)
  from body_success [OF body grp fs] det
  have w: "write_results vkey False filter_genes grp velo ?a1 = (a', None)" by simp
  have others: "layers a' k =
           (if filter_genes \<and> n_distinct (velocity_genes velo) > 1
            then map_option (gather (velocity_genes velo)) else id) (layers ?a1 k)"
    if "k \<noteq> vkey" for k
    using write_results_layers [OF w, of k] that by simp
  have "''variance_'' @ vkey \<noteq> vkey" by (simp add: append_eq_append_conv_if)
  from others [OF this] ensure_moments_fields(5) [of C use_raw a0 vkey]
  have var_layer: "layers a' (''variance_'' @ vkey) =
           (if filter_genes \<and> n_distinct (velocity_genes velo) > 1
            then map_option (gather (velocity_genes velo)) else id)
             (layers a0 (''variance_'' @ vkey))"
    by simp
  have firstl: "layers a' vkey =
           (if filter_genes \<and> n_distinct (velocity_genes velo) > 1
            then map_option (gather (velocity_genes velo)) else id) (residual velo)"
    if "grp = None"
    using write_results_first_layer [of vkey filter_genes velo ?a1 a'] w that by simp
  from fs first_fit_fields(3) [OF first] var_layer others firstl show ?thesis by blast
qed

theorem deterministic_mode_layers_witness:
  "\<not> stochastic_mode (Some ''deterministic'') \<and>
   resolve_groups NoGroups None (ensure_moments ex_collab False ex_prev) = Inr None \<and>
   first_fit ex_collab False None None False (ensure_moments ex_collab False ex_prev)
     = Inr (ex_velo1\<lparr>adata := ex_prev\<rparr>) \<and>
   snd (velocity_body ex_collab ''velocity'' (Some ''deterministic'') False False False NoGroups
          None None False ex_prev) = None \<and>
   residual2 (ex_velo1\<lparr>adata := ex_prev\<rparr>) = None \<and>
   layers (fst (velocity_body ex_collab ''velocity'' (Some ''deterministic'') False False False
          NoGroups None None False ex_prev)) (''variance_'' @ ''velocity'')
     = layers ex_prev (''variance_'' @ ''velocity'') \<and>
   layers (fst (velocity_body ex_collab ''velocity'' (Some ''deterministic'') False False False
          NoGroups None None False ex_prev)) ''velocity'' = Some [[0, 0], [0, 0], [0, 0]]"
proof -
  have det: "\<not> stochastic_mode (Some ''deterministic'')"
    by (simp add: stochastic_mode_def)
  have grp: "resolve_groups NoGroups None (ensure_moments ex_collab False ex_prev) = Inr None"
    by (simp add: resolve_groups_def)
  have first: "first_fit ex_collab False None None False (ensure_moments ex_collab False ex_prev)
      = Inr (ex_velo1\<lparr>adata := ex_prev\<rparr>)"
    by (simp add: drv_defs np_defs ex_defs)
  have ok: "snd (velocity_body ex_collab ''velocity'' (Some ''deterministic'') False False False
      NoGroups None None False ex_prev) = None"
    by (simp add: drv_defs np_defs ex_defs)
  then have body: "velocity_body ex_collab ''velocity'' (Some ''deterministic'') False False False
      NoGroups None None False ex_prev
    = (fst (velocity_body ex_collab ''velocity'' (Some ''deterministic'') False False False
      NoGroups None None False ex_prev), None)"
    by (simp add: prod_eq_iff)
  have res: "residual (ex_velo1\<lparr>adata := ex_prev\<rparr>) = Some [[0, 0], [0, 0], [0, 0]]"
    by (simp add: ex_defs)
  from deterministic_mode_layers [OF det grp first body] res
  have "residual2 (ex_velo1\<lparr>adata := ex_prev\<rparr>) = None"
    and "layers (fst (velocity_body ex_collab ''velocity'' (Some ''deterministic'') False False
          False NoGroups None None False ex_prev)) (''variance_'' @ ''velocity'')
      = layers ex_prev (''variance_'' @ ''velocity'')"
    and "layers (fst (velocity_body ex_collab ''velocity'' (Some ''deterministic'') False False
          False NoGroups None None False ex_prev)) ''velocity'' = Some [[0, 0], [0, 0], [0, 0]]"
    by simp_all
  with det grp first ok show ?thesis by simp
qed

text \<open>
  C6 as stated fails: a call with mode \<^verbatim>\<open>None\<close> and \<^verbatim>\<open>filter_genes=True\<close> on a
  dataset that already has a \<^verbatim>\<open>variance_velocity\<close> layer modifies that layer:
  the column of the gene that is filtered out is dropped.
\<close>

theorem variance_layer_narrowed_counterexample:
  "\<not> stochastic_mode None \<and>
   snd (velocity_body ex_collab ''velocity'' None False False True NoGroups None None False
          ex_prev) = None \<and>
   layers ex_prev ''variance_velocity'' = Some [[9, 38], [0, 0], [11, 93]] \<and>
   layers (fst (velocity_body ex_collab ''velocity'' None False False True NoGroups None None
          False ex_prev)) ''variance_velocity'' = Some [[9, 38], [11, 93]]"
  by (simp add: drv_defs np_defs ex_defs)

text \<open>
  C9, as the code has it: in a stochastic mode with \<^verbatim>\<open>filter_genes=True\<close> and a
  mask that holds both values, a successful call narrows the dataset and
  rebuilds the estimator with a residual that is not \<^verbatim>\<open>None\<close>, so
  \<^verbatim>\<open>compute_stochastic\<close> does not run the deterministic stage again; the final
  estimator has \<^verbatim>\<open>r2\<close> all zero and the mask all true. The call therefore writes
  neither the column \<^verbatim>\<open>vkey + '_r2'\<close> nor \<^verbatim>\<open>vkey + '_genes'\<close>: each is in the
  output exactly if it was in the input, with the input's values for the kept
  genes. No second filtering takes place: the output has the genes of the first
  mask.
\<close>

theorem rebuilt_estimator_writes_no_r2_no_mask:
  assumes stoch: "stochastic_mode mode"
    and grp: "resolve_groups groups groupby (ensure_moments C use_raw a0) = Inr grp"
    and first: "first_fit C fit_offset grp subset_for_fitting use_raw (ensure_moments C use_raw a0)
                  = Inr velo0"
    and mask: "n_distinct (velocity_genes velo0) > 1"
    and body: "velocity_body C vkey mode fit_offset fit_offset2 True groups groupby
                 subset_for_fitting use_raw a0 = (a', None)"
  shows "\<exists>a2 s velo.
           subset_var (velocity_genes velo0) (ensure_moments C use_raw a0) = Inr a2 \<and>
           rebuild grp subset_for_fitting velo0 a2 = Inr s \<and> residual s \<noteq> None \<and>
           compute_stochastic C fit_offset fit_offset2 mode s
             = stochastic_stage C fit_offset fit_offset2 mode s \<and>
           stochastic_stage C fit_offset fit_offset2 mode s = Inr velo \<and>
           r2 velo = replicate (length (Ms velo)) 0 \<and>
           velocity_genes velo = replicate (length (Ms velo)) True \<and>
           \<not> column_distinct (Floats (r2 velo)) > 1 \<and>
           \<not> column_distinct (Bools (velocity_genes velo)) > 1 \<and>
           var a' (vkey @ ''_r2'')
             = map_option (gather_column (velocity_genes velo0)) (var a0 (vkey @ ''_r2'')) \<and>
           var a' (vkey @ ''_genes'')
             = map_option (gather_column (velocity_genes velo0)) (var a0 (vkey @ ''_genes'')) \<and>
           n_vars a' = count_true (velocity_genes velo0)"
proof -
  let ?a1 = "ensure_moments C use_raw a0"
  obtain a2 r where fs: "fit_stages C mode fit_offset fit_offset2 True grp subset_for_fitting
      use_raw ?a1 = (a2, r)" by (cases "fit_stages C mode fit_offset fit_offset2 True grp
      subset_for_fitting use_raw ?a1")
  from body grp fs obtain velo where r: "r = Inr velo"
    by (cases r) (auto simp: velocity_body_def Let_def)
  from fs r stoch first mask obtain s where
    sub: "subset_var (velocity_genes velo0) ?a1 = Inr a2" and
    reb: "rebuild grp subset_for_fitting velo0 a2 = Inr s" and
    cs: "compute_stochastic C fit_offset fit_offset2 mode s = Inr velo"
    by (auto simp: fit_stages_def ebind_eq_Inr split: sum.splits)
  note rf = rebuild_fields [OF reb]
  from rf(4) have carried: "compute_stochastic C fit_offset fit_offset2 mode s
      = stochastic_stage C fit_offset fit_offset2 mode s"
    by (rule compute_stochastic_carried)
  with cs have st: "stochastic_stage C fit_offset fit_offset2 mode s = Inr velo" by simp
  note sf = stochastic_stage_frame [OF st]
  from sf rf have r2z: "r2 velo = replicate (length (Ms velo)) 0"
    and gt: "velocity_genes velo = replicate (length (Ms velo)) True" by simp_all
  have d1: "\<not> column_distinct (Floats (r2 velo)) > 1"
    using n_distinct_replicate [of "length (Ms velo)" "0::real"] r2z by simp
  have d2: "\<not> column_distinct (Bools (velocity_genes velo)) > 1"
    using n_distinct_replicate [of "length (Ms velo)" True] gt by simp
  then have nofilter: "\<not> (True \<and> n_distinct (velocity_genes velo) > 1)" by simp
  from body_success [OF body grp] fs r
  have w: "write_results vkey (stochastic_mode mode) True grp velo a2 = (a', None)" by simp
  from write_results_var [OF w] nofilter
  have v: "var a' k = var (write_pars vkey (zip get_pars_names (get_pars velo)) a2) k" for k
    by simp
  from write_pars_var [of 4 vkey velo a2] d1
  have v4: "var a' (vkey @ ''_r2'') = var a2 (vkey @ ''_r2'')"
    by (simp add: v get_pars_names_def get_pars_def)
  from write_pars_var [of 5 vkey velo a2] d2
  have v5: "var a' (vkey @ ''_genes'') = var a2 (vkey @ ''_genes'')"
    by (simp add: v get_pars_names_def get_pars_def)
  from write_results_n_vars [OF w nofilter] have n: "n_vars a' = n_vars a2" .
  from subset_var_fields [OF sub] v4 v5 n
  have "var a' (vkey @ ''_r2'')
      = map_option (gather_column (velocity_genes velo0)) (var a0 (vkey @ ''_r2''))"
    "var a' (vkey @ ''_genes'')
      = map_option (gather_column (velocity_genes velo0)) (var a0 (vkey @ ''_genes''))"
    "n_vars a' = count_true (velocity_genes velo0)"
    by (simp_all add: ensure_moments_fields)
  with sub reb rf(4) carried st r2z gt d1 d2 show ?thesis by blast
qed

theorem rebuilt_estimator_writes_no_r2_no_mask_witness:
  "stochastic_mode (Some ''stochastic'') \<and>
   resolve_groups NoGroups None (ensure_moments ex_collab False ex_prev) = Inr None \<and>
   first_fit ex_collab False None None False (ensure_moments ex_collab False ex_prev)
     = Inr (ex_velo1\<lparr>adata := ex_prev\<rparr>) \<and>
   n_distinct (velocity_genes (ex_velo1\<lparr>adata := ex_prev\<rparr>)) > 1 \<and>
   snd (velocity_body ex_collab ''velocity'' (Some ''stochastic'') False False True NoGroups None
          None False ex_prev) = None \<and>
   var (fst (velocity_body ex_collab ''velocity'' (Some ''stochastic'') False False True NoGroups
          None None False ex_prev)) (''velocity'' @ ''_r2'')
     = map_option (gather_column [True, False, True]) (var ex_prev (''velocity'' @ ''_r2'')) \<and>
   n_vars (fst (velocity_body ex_collab ''velocity'' (Some ''stochastic'') False False True
          NoGroups None None False ex_prev)) = 2"
proof -
  have stoch: "stochastic_mode (Some ''stochastic'')"
    by (simp add: stochastic_mode_def)
  have grp: "resolve_groups NoGroups None (ensure_moments ex_collab False ex_prev) = Inr None"
    by (simp add: resolve_groups_def)
  have first: "first_fit ex_collab False None None False (ensure_moments ex_collab False ex_prev)
      = Inr (ex_velo1\<lparr>adata := ex_prev\<rparr>)"
    by (simp add: drv_defs np_defs ex_defs)
  have mask: "n_distinct (velocity_genes (ex_velo1\<lparr>adata := ex_prev\<rparr>)) > 1"
    by (simp add: n_distinct_def ex_defs)
  have ok: "snd (velocity_body ex_collab ''velocity'' (Some ''stochastic'') False False True
      NoGroups None None False ex_prev) = None"
    by (simp add: drv_defs np_defs ex_defs)
  then have body: "velocity_body ex_collab ''velocity'' (Some ''stochastic'') False False True
      NoGroups None None False ex_prev
    = (fst (velocity_body ex_collab ''velocity'' (Some ''stochastic'') False False True
      NoGroups None None False ex_prev), None)"
    by (simp add: prod_eq_iff)
  have genes: "velocity_genes (ex_velo1\<lparr>adata := ex_prev\<rparr>) = [True, False, True]"
    by (simp add: ex_defs)
  from rebuilt_estimator_writes_no_r2_no_mask [OF stoch grp first mask body]
  have "var (fst (velocity_body ex_collab ''velocity'' (Some ''stochastic'') False False True
        NoGroups None None False ex_prev)) (''velocity'' @ ''_r2'')
      = map_option (gather_column [True, False, True]) (var ex_prev (''velocity'' @ ''_r2''))"
    and "n_vars (fst (velocity_body ex_collab ''velocity'' (Some ''stochastic'') False False True
        NoGroups None None False ex_prev)) = 2"
    by (auto simp: genes count_true_def)
  with stoch grp first mask ok show ?thesis by simp
qed

text \<open>
  C9 as stated fails where it says that the output has neither column: on a
  dataset that an earlier call left with the columns \<^verbatim>\<open>velocity_r2\<close> and
  \<^verbatim>\<open>velocity_genes\<close>, the output still has both, with the earlier values.
\<close>

theorem stale_r2_column_counterexample:
  "stochastic_mode (Some ''stochastic'') \<and>
   first_fit ex_collab False None None False ex_prev = Inr (ex_velo1\<lparr>adata := ex_prev\<rparr>) \<and>
   n_distinct (velocity_genes (ex_velo1\<lparr>adata := ex_prev\<rparr>)) > 1 \<and>
   snd (velocity_body ex_collab ''velocity'' (Some ''stochastic'') False False True NoGroups None
          None False ex_prev) = None \<and>
   var (fst (velocity_body ex_collab ''velocity'' (Some ''stochastic'') False False True NoGroups
          None None False ex_prev)) ''velocity_r2'' = Some (Floats [1, 3]) \<and>
   var (fst (velocity_body ex_collab ''velocity'' (Some ''stochastic'') False False True NoGroups
          None None False ex_prev)) ''velocity_genes'' = Some (Bools [True, True])"
  by (simp add: drv_defs np_defs ex_defs)

end
